theory Spec2Isabelle
  imports Main
begin

section \<open>The delivery pipeline of Discord.RSS\<close>

text \<open>
  A shallow embedding of the class \<open>DeliveryPipeline\<close>. Every method becomes a function
  from the state before the call to the state after it, paired with the way the returned
  promise settles: \<open>None\<close> when it resolves, \<open>Some err\<close> when it rejects with \<open>err\<close>.
  The collaborators of the class that live in other modules (the channel cache of the bot,
  \<open>ArticleMessage\<close>, \<open>ArticleMessageRateLimiter\<close>, the REST producer, the
  \<open>DeliveryRecord\<close> model) are parameters: each awaited call takes its outcome from the
  \<open>world\<close> record or from the object it is a method of.
\<close>

subsection \<open>Values\<close>

text \<open>
  A thrown value, as far as the pipeline reads it: \<open>err.message\<close> (absent on a value that
  is not an \<open>Error\<close>) and \<open>err.code\<close> (a number on a Discord API error; a code that is
  not a number is never \<open>=== 50035\<close> and is modelled as absent).
\<close>

record js_error =
  message :: "string option"
  code :: "int option"

definition new_Error :: "string \<Rightarrow> js_error" where
  "new_Error m = \<lparr>message = Some m, code = None\<rparr>"

text \<open>The \<open>TypeError\<close> of the runtime for a property read on \<open>undefined\<close>.\<close>

definition TypeError_property :: "string \<Rightarrow> js_error" where
  "TypeError_property p =
     new_Error (''Cannot read property '' @ [CHR 0x27] @ p @ [CHR 0x27] @ '' of undefined'')"

record article =
  article_id :: string
  link :: "string option"
  title :: "string option"

type_synonym webhook_settings = string

record feed_object =
  feed_id :: string
  url :: string
  channel :: string
  webhook :: "webhook_settings option"

record new_article =
  article :: article
  feedObject :: feed_object

text \<open>The medium is a text channel or a webhook (\<open>medium instanceof Webhook\<close>).\<close>

datatype medium = TextChannel string | Webhook string string

text \<open>An API payload is kept as its JSON text.\<close>

type_synonym api_payload = string

definition JSON_stringify :: "api_payload \<Rightarrow> string" where
  "JSON_stringify p = p"

text \<open>
  An \<open>ArticleMessage\<close>: the verdict of \<open>passedFilters()\<close>, how the awaited
  \<open>getMedium(bot)\<close> settles, and \<open>createAPIPayloads\<close>.
\<close>

record article_message =
  passedFilters :: bool
  getMedium :: "js_error + medium option"
  createAPIPayloads :: "webhook_settings option \<Rightarrow> api_payload list"

record rest_request =
  req_url :: string
  req_method :: string
  req_body :: string
  meta_articleID :: string
  meta_feedURL :: string
  meta_channel :: string

record delivery_record =
  articleID :: string
  feedURL :: string
  record_channel :: string
  delivered :: bool
  comment :: string

text \<open>A cached channel: its id and how a \<open>send\<close> of a given content settles.\<close>

record discord_channel =
  channel_id :: string
  send :: "string \<Rightarrow> js_error option"

datatype level = Debug | Info | Warn | Err

datatype log_object = NoObject | ErrorObject js_error | DataObject delivery_record

record log_entry =
  severity :: level
  logged :: log_object
  text_of :: string

subsection \<open>The pipeline, the world and the state\<close>

text \<open>
  The REST producer: for a request, the time at which the promise returned by
  \<open>enqueue\<close> settles and how it settles.
\<close>

record rest_producer =
  enqueue :: "rest_request \<Rightarrow> nat \<times> js_error option"

text \<open>The fields of \<open>this\<close> that never change after the constructor.\<close>

record pipeline =
  restProducer :: "rest_producer option"
  logFiltered :: bool

definition DeliveryPipeline :: "rest_producer option \<Rightarrow> bool \<Rightarrow> pipeline" where
  "DeliveryPipeline producer log_unfiltered =
     \<lparr>restProducer = producer, logFiltered = (log_unfiltered = True)\<rparr>"

text \<open>
  The collaborators. The channel cache is read twice, on entry of \<open>deliver\<close> and in
  \<open>handleArticleFailure\<close>, with awaited calls in between: the two reads are two fields.
  \<open>save\<close> is \<open>new DeliveryRecord.Model(data)\<close> followed by \<open>record.save()\<close>.
\<close>

record world =
  cache_on_entry :: "string \<rightharpoonup> discord_channel"
  cache_on_failure :: "string \<rightharpoonup> discord_channel"
  create :: "feed_object \<Rightarrow> article \<Rightarrow> bool \<Rightarrow> js_error + article_message"
  assertWithinLimits :: "article_message \<Rightarrow> js_error option"
  isMongoDatabase :: bool
  save :: "delivery_record \<Rightarrow> js_error option"

text \<open>
  The state: the registry \<open>this.queues\<close> (a queue instance is an address, its entries
  are in \<open>queue_store\<close>), the delivery-record collection, and the calls made so far to
  the REST producer, to \<open>channel.send\<close>, to \<open>ArticleMessage.create\<close>, to the rate
  limiter and to the logger.
\<close>

record state =
  queues :: "string \<rightharpoonup> nat"
  queue_store :: "nat \<rightharpoonup> (new_article \<times> article_message) list"
  next_queue :: nat
  records :: "delivery_record list"
  requests :: "rest_request list"
  sent :: "(string \<times> string) list"
  created :: nat
  limiter_calls :: nat
  logs :: "log_entry list"

definition initial_state :: state where
  "initial_state =
     \<lparr>queues = Map.empty, queue_store = Map.empty, next_queue = 0, records = [],
      requests = [], sent = [], created = 0, limiter_calls = 0, logs = []\<rparr>"

type_synonym settled = "state \<times> js_error option"

subsection \<open>JavaScript operators\<close>

text \<open>\<open>s.includes(t)\<close>.\<close>

fun startsWith :: "string \<Rightarrow> string \<Rightarrow> bool" where
  "startsWith s [] = True"
| "startsWith [] (c # t) = False"
| "startsWith (d # s) (c # t) = (d = c \<and> startsWith s t)"

fun String_includes :: "string \<Rightarrow> string \<Rightarrow> bool" where
  "String_includes [] t = (t = [])"
| "String_includes (d # s) t = (startsWith (d # s) t \<or> String_includes s t)"

text \<open>\<open>a || b\<close> on strings that may be undefined: \<open>a\<close> unless it is undefined or empty.\<close>

fun js_or :: "string option \<Rightarrow> string option \<Rightarrow> string option" where
  "js_or None b = b"
| "js_or (Some a) b = (if a = [] then b else Some a)"

text \<open>\<open>a || 'text'\<close>, where the right operand is a string literal.\<close>

fun js_or_text :: "string option \<Rightarrow> string \<Rightarrow> string" where
  "js_or_text None b = b"
| "js_or_text (Some a) b = (if a = [] then b else a)"

text \<open>A value inside a template literal.\<close>

fun template :: "string option \<Rightarrow> string" where
  "template None = ''undefined''"
| "template (Some a) = a"

text \<open>
  \<open>Promise.all\<close> over promises given by their settling time and outcome: it resolves
  when every promise resolves and rejects with the rejection that settles first (of two
  rejections settling at the same time, the one earlier in the array).
  \<open>first_rejection best ps\<close> is the earliest rejection among \<open>best\<close> and \<open>ps\<close>.
\<close>

fun first_rejection ::
  "(nat \<times> js_error) option \<Rightarrow> (nat \<times> js_error option) list \<Rightarrow> (nat \<times> js_error) option" where
  "first_rejection best [] = best"
| "first_rejection best ((t, None) # ps) = first_rejection best ps"
| "first_rejection best ((t, Some e) # ps) =
     first_rejection
       (case best of
          None \<Rightarrow> Some (t, e)
        | Some (t0, e0) \<Rightarrow> if t < t0 then Some (t, e) else Some (t0, e0)) ps"

definition Promise_all :: "(nat \<times> js_error option) list \<Rightarrow> js_error option" where
  "Promise_all ps = map_option snd (first_rejection None ps)"

definition log :: "level \<Rightarrow> log_object \<Rightarrow> string \<Rightarrow> state \<Rightarrow> state" where
  "log l obj msg s = s\<lparr>logs := logs s @ [\<lparr>severity = l, logged = obj, text_of = msg\<rparr>]\<rparr>"

subsection \<open>The methods\<close>

definition getChannel :: "(string \<rightharpoonup> discord_channel) \<Rightarrow> new_article \<Rightarrow> discord_channel option" where
  "getChannel cache newArticle = cache (channel (feedObject newArticle))"

definition createArticleMessage ::
  "world \<Rightarrow> new_article \<Rightarrow> bool \<Rightarrow> state \<Rightarrow> state \<times> (js_error + article_message)" where
  "createArticleMessage w newArticle debug s =
     (s\<lparr>created := Suc (created s)\<rparr>,
      create w (feedObject newArticle) (article newArticle) debug)"

definition apiRoute :: "medium \<Rightarrow> string" where
  "apiRoute m =
     (case m of
        Webhook i t \<Rightarrow> ''/webhooks/'' @ i @ ''/'' @ t
      | TextChannel i \<Rightarrow> ''/channels/'' @ i @ ''/messages'')"

definition api_request :: "new_article \<Rightarrow> medium \<Rightarrow> api_payload \<Rightarrow> rest_request" where
  "api_request newArticle m apiPayload =
     \<lparr>req_url = ''https://discord.com/api'' @ apiRoute m,
      req_method = ''POST'',
      req_body = JSON_stringify apiPayload,
      meta_articleID = article_id (article newArticle),
      meta_feedURL = url (feedObject newArticle),
      meta_channel = channel (feedObject newArticle)\<rparr>"

definition apiPayloads_of :: "new_article \<Rightarrow> article_message \<Rightarrow> medium \<Rightarrow> api_payload list" where
  "apiPayloads_of newArticle articleMessage m =
     createAPIPayloads articleMessage
       (case m of Webhook i t \<Rightarrow> webhook (feedObject newArticle) | TextChannel i \<Rightarrow> None)"

text \<open>
  \<open>sendToService\<close>. It is called only where \<open>this.restProducer\<close> is set; the producer
  is an argument.
\<close>

definition sendToService ::
  "rest_producer \<Rightarrow> new_article \<Rightarrow> article_message \<Rightarrow> state \<Rightarrow> settled" where
  "sendToService producer newArticle articleMessage s =
     (case getMedium articleMessage of
        Inl err \<Rightarrow> (s, Some err)
      | Inr None \<Rightarrow> (s, Some (new_Error ''Missing medium to send article via service''))
      | Inr (Some m) \<Rightarrow>
          (let reqs = map (api_request newArticle m) (apiPayloads_of newArticle articleMessage m)
           in (s\<lparr>requests := requests s @ reqs\<rparr>, Promise_all (map (enqueue producer) reqs))))"

text \<open>
  \<open>getQueueForChannel\<close>. Modelled from the spec: the constructor of \<open>ArticleQueue\<close>
  (not among the sources) makes a queue with no entries.
\<close>

definition getQueueForChannel :: "string \<Rightarrow> state \<Rightarrow> nat \<times> state" where
  "getQueueForChannel channelID s =
     (case queues s channelID of
        None \<Rightarrow>
          (let newQueue = next_queue s
           in (newQueue,
               s\<lparr>queues := (queues s)(channelID \<mapsto> newQueue),
                 queue_store := (queue_store s)(newQueue \<mapsto> []),
                 next_queue := Suc newQueue\<rparr>))
      | Some q \<Rightarrow> (q, s))"

text \<open>
  Modelled from the spec: \<open>ArticleQueue.enqueue\<close> (the module \<open>ArticleQueue.js\<close> is
  not among the sources). The entry is appended to the FIFO of the queue.
\<close>

definition ArticleQueue_enqueue ::
  "nat \<Rightarrow> new_article \<Rightarrow> article_message \<Rightarrow> state \<Rightarrow> state" where
  "ArticleQueue_enqueue q newArticle articleMessage s =
     s\<lparr>queue_store := (queue_store s)
         (q \<mapsto> (case queue_store s q of None \<Rightarrow> [] | Some es \<Rightarrow> es) @ [(newArticle, articleMessage)])\<rparr>"

definition delivery_data :: "new_article \<Rightarrow> string \<Rightarrow> delivery_record" where
  "delivery_data newArticle c =
     \<lparr>articleID = article_id (article newArticle),
      feedURL = url (feedObject newArticle),
      record_channel = channel (feedObject newArticle),
      delivered = False,
      comment = c\<rparr>"

definition recordFailure :: "world \<Rightarrow> new_article \<Rightarrow> string \<Rightarrow> state \<Rightarrow> settled" where
  "recordFailure w newArticle errorMessage s =
     (if \<not> isMongoDatabase w then (s, None)
      else
        (let data = delivery_data newArticle errorMessage;
             s1 = log Debug (DataObject data) ''Recording delivery record failure'' s
         in (case save w data of
               None \<Rightarrow> (s1\<lparr>records := records s1 @ [data]\<rparr>, None)
             | Some err \<Rightarrow>
                 (log Err (ErrorObject err)
                    (''Failed to record article '' @ article_id (article newArticle)
                       @ '' delivery failure in channel '' @ channel (feedObject newArticle)
                       @ '' (error: '' @ errorMessage @ '')'') s1,
                  None))))"

definition recordFilterBlock :: "world \<Rightarrow> new_article \<Rightarrow> state \<Rightarrow> settled" where
  "recordFilterBlock w newArticle s =
     (if \<not> isMongoDatabase w then (s, None)
      else
        (let data = delivery_data newArticle ''Blocked by filters'';
             s1 = log Debug (DataObject data) ''Recording delivery record filter block'' s
         in (case save w data of
               None \<Rightarrow> (s1\<lparr>records := records s1 @ [data]\<rparr>, None)
             | Some err \<Rightarrow>
                 (log Err (ErrorObject err)
                    (''Failed to record article '' @ article_id (article newArticle)
                       @ '' delivery blocked by filters in channel ''
                       @ channel (feedObject newArticle)) s1,
                  None))))"

definition handleArticleBlocked :: "world \<Rightarrow> pipeline \<Rightarrow> new_article \<Rightarrow> state \<Rightarrow> settled" where
  "handleArticleBlocked w p newArticle s =
     (let s1 =
        (if logFiltered p
         then log Info NoObject
                ([CHR 0x27]
                   @ template (js_or (link (article newArticle)) (title (article newArticle)))
                   @ [CHR 0x27] @ '' did not pass filters and was not sent'') s
         else s)
      in recordFilterBlock w newArticle s1)"

definition failure_notice :: "new_article \<Rightarrow> string \<Rightarrow> string" where
  "failure_notice newArticle m =
     ''Failed to send article <'' @ template (link (article newArticle)) @ ''>.```'' @ m @ ''```''"

definition handleArticleFailure :: "world \<Rightarrow> new_article \<Rightarrow> js_error \<Rightarrow> state \<Rightarrow> settled" where
  "handleArticleFailure w newArticle err s =
     (let ch = getChannel (cache_on_failure w) newArticle
      in (case recordFailure w newArticle (js_or_text (message err) ''N/A'') s of
            (s1, Some e) \<Rightarrow> (s1, Some e)
          | (s1, None) \<Rightarrow>
              (case message err of
                 None \<Rightarrow> (s1, Some (TypeError_property ''includes''))
               | Some m \<Rightarrow>
                   if String_includes m ''limited''
                   then (log Debug (ErrorObject err) ''Ignoring rate-limited article'' s1, None)
                   else
                     (let s2 = log Warn (ErrorObject err)
                                 (''Failed to deliver article '' @ article_id (article newArticle)
                                    @ '' ('' @ template (link (article newArticle)) @ '') of feed ''
                                    @ feed_id (feedObject newArticle)) s1
                      in if code err = Some 50035
                         then (case ch of
                                 None \<Rightarrow> (s2, Some (TypeError_property ''send''))
                               | Some c \<Rightarrow>
                                   (s2\<lparr>sent := sent s2 @ [(channel_id c, failure_notice newArticle m)]\<rparr>,
                                    send c (failure_notice newArticle m)))
                         else (s2, None)))))"

definition sendNewArticle ::
  "world \<Rightarrow> pipeline \<Rightarrow> new_article \<Rightarrow> article_message \<Rightarrow> state \<Rightarrow> settled" where
  "sendNewArticle w p newArticle articleMessage s =
     (let s0 = s\<lparr>limiter_calls := Suc (limiter_calls s)\<rparr>
      in (case assertWithinLimits w articleMessage of
            Some err \<Rightarrow> (s0, Some err)
          | None \<Rightarrow>
              (case restProducer p of
                 Some producer \<Rightarrow>
                   (case sendToService producer newArticle articleMessage s0 of
                      (s1, Some err) \<Rightarrow> (s1, Some err)
                    | (s1, None) \<Rightarrow>
                        (log Debug NoObject
                           (''Sent article '' @ article_id (article newArticle) @ '' of feed ''
                              @ feed_id (feedObject newArticle) @ '' to service'') s1,
                         None))
               | None \<Rightarrow>
                   (let channelID = channel (feedObject newArticle);
                        (queue, s1) = getQueueForChannel channelID s0;
                        s2 = ArticleQueue_enqueue queue newArticle articleMessage s1
                    in (log Debug NoObject
                          (''Enqueued article '' @ article_id (article newArticle) @ '' of feed ''
                             @ feed_id (feedObject newArticle) @ '' within client'') s2,
                        None)))))"

text \<open>
  \<open>deliver\<close>. The body of the \<open>try\<close> block is \<open>deliver_try\<close>; whatever it rejects with
  goes to \<open>handleArticleFailure\<close>, whose own rejection is the rejection of \<open>deliver\<close>.
\<close>

definition deliver_try :: "world \<Rightarrow> pipeline \<Rightarrow> new_article \<Rightarrow> bool \<Rightarrow> state \<Rightarrow> settled" where
  "deliver_try w p newArticle debug s =
     (case createArticleMessage w newArticle debug s of
        (s1, Inl err) \<Rightarrow> (s1, Some err)
      | (s1, Inr articleMessage) \<Rightarrow>
          if \<not> passedFilters articleMessage
          then handleArticleBlocked w p newArticle s1
          else sendNewArticle w p newArticle articleMessage
                 (log Debug NoObject
                    (''Preparing to send new article '' @ article_id (article newArticle)
                       @ '' of feed '' @ feed_id (feedObject newArticle) @ '' to service'') s1))"

definition deliver :: "world \<Rightarrow> pipeline \<Rightarrow> new_article \<Rightarrow> bool \<Rightarrow> state \<Rightarrow> settled" where
  "deliver w p newArticle debug s =
     (case getChannel (cache_on_entry w) newArticle of
        None \<Rightarrow> (s, None)
      | Some ch \<Rightarrow>
          (case deliver_try w p newArticle debug s of
             (s1, Some err) \<Rightarrow> handleArticleFailure w newArticle err s1
           | (s1, None) \<Rightarrow> (s1, None)))"

subsection \<open>Observations\<close>

text \<open>
  What a delivery dispatches: the calls to the REST producer and the queues of the
  registry with their entries.
\<close>

definition dispatches ::
  "state \<Rightarrow> rest_request list \<times> (string \<rightharpoonup> nat)
     \<times> (nat \<rightharpoonup> (new_article \<times> article_message) list) \<times> nat" where
  "dispatches s = (requests s, queues s, queue_store s, next_queue s)"

text \<open>
  The state in which \<open>sendNewArticle\<close> starts inside \<open>deliver\<close>: the message has been
  created and the line "Preparing to send" logged.
\<close>

definition prepared :: "new_article \<Rightarrow> state \<Rightarrow> state" where
  "prepared newArticle s =
     log Debug NoObject
       (''Preparing to send new article '' @ article_id (article newArticle)
          @ '' of feed '' @ feed_id (feedObject newArticle) @ '' to service'')
       (s\<lparr>created := Suc (created s)\<rparr>)"

text \<open>The entries waiting in the queue of a channel.\<close>

definition queued :: "string \<Rightarrow> state \<Rightarrow> (new_article \<times> article_message) list" where
  "queued c s =
     (case queues s c of
        None \<Rightarrow> []
      | Some q \<Rightarrow> (case queue_store s q of None \<Rightarrow> [] | Some es \<Rightarrow> es))"

text \<open>A run of calls of \<open>getQueueForChannel\<close>, one for each channel id of a list.\<close>

fun getQueuesForChannels :: "string list \<Rightarrow> state \<Rightarrow> state" where
  "getQueuesForChannels [] s = s"
| "getQueuesForChannels (c # cs) s = getQueuesForChannels cs (snd (getQueueForChannel c s))"

text \<open>
  The invariant of the registry: as many queues as registered ids, every registered queue
  an address already handed out, no queue registered under two ids.
\<close>

definition registry_ok :: "state \<Rightarrow> bool" where
  "registry_ok s \<longleftrightarrow>
     finite (dom (queues s)) \<and> card (dom (queues s)) = next_queue s
     \<and> (\<forall>c q. queues s c = Some q \<longrightarrow> q < next_queue s)
     \<and> inj_on (queues s) (dom (queues s))"

subsection \<open>Concrete inputs\<close>

definition example_article :: new_article where
  "example_article =
     \<lparr>article = \<lparr>article_id = ''a1'', link = Some ''https://example.com/1'', title = Some ''First''\<rparr>,
      feedObject = \<lparr>feed_id = ''f1'', url = ''https://example.com/rss'', channel = ''100'',
                    webhook = None\<rparr>\<rparr>"

definition example_channel :: discord_channel where
  "example_channel = \<lparr>channel_id = ''100'', send = (\<lambda>content. None)\<rparr>"

definition example_message :: article_message where
  "example_message =
     \<lparr>passedFilters = True, getMedium = Inr (Some (TextChannel ''100'')),
      createAPIPayloads = (\<lambda>settings. [''{}'', ''[]''])\<rparr>"

definition example_producer :: rest_producer where
  "example_producer = \<lparr>enqueue = (\<lambda>request. (0, None))\<rparr>"

definition example_world :: world where
  "example_world =
     \<lparr>cache_on_entry = [''100'' \<mapsto> example_channel],
      cache_on_failure = [''100'' \<mapsto> example_channel],
      create = (\<lambda>feed art debug. Inr example_message),
      assertWithinLimits = (\<lambda>articleMessage. None),
      isMongoDatabase = True,
      save = (\<lambda>data. None)\<rparr>"

definition queue_pipeline :: pipeline where
  "queue_pipeline = DeliveryPipeline None True"

definition direct_pipeline :: pipeline where
  "direct_pipeline = DeliveryPipeline (Some example_producer) True"

definition rate_limited_world :: world where
  "rate_limited_world =
     example_world\<lparr>assertWithinLimits := (\<lambda>articleMessage. Some (new_Error ''Rate limited article''))\<rparr>"

definition vanished_world :: world where
  "vanished_world =
     example_world\<lparr>create := (\<lambda>feed art debug. Inr (example_message\<lparr>getMedium := Inr None\<rparr>))\<rparr>"

definition blocked_world :: world where
  "blocked_world =
     example_world\<lparr>create := (\<lambda>feed art debug. Inr (example_message\<lparr>passedFilters := False\<rparr>))\<rparr>"

definition bad_request :: js_error where
  "bad_request = \<lparr>message = Some ''Invalid Form Body'', code = Some 50035\<rparr>"

definition missing_permissions :: js_error where
  "missing_permissions = \<lparr>message = Some ''Missing Permissions'', code = Some 50013\<rparr>"

definition database_error :: js_error where
  "database_error = \<lparr>message = Some ''connection closed'', code = None\<rparr>"

definition rejecting_pipeline :: "js_error \<Rightarrow> pipeline" where
  "rejecting_pipeline err =
     DeliveryPipeline (Some \<lparr>enqueue = (\<lambda>request. (0, Some err))\<rparr>) True"

definition service_unavailable :: js_error where
  "service_unavailable = \<lparr>message = Some ''Service Unavailable'', code = None\<rparr>"

text \<open>
  A producer whose two requests both reject: the first of the array at time 2, the second
  at time 1.
\<close>

definition racing_pipeline :: pipeline where
  "racing_pipeline =
     DeliveryPipeline
       (Some \<lparr>enqueue = (\<lambda>request. if req_body request = ''{}''
                                     then (2, Some bad_request)
                                     else (1, Some service_unavailable))\<rparr>) True"

text \<open>A thrown value that has no \<open>message\<close>.\<close>

definition messageless_error :: js_error where
  "messageless_error = \<lparr>message = None, code = None\<rparr>"

definition closed_channel_world :: world where
  "closed_channel_world =
     example_world\<lparr>cache_on_failure :=
       [''100'' \<mapsto> \<lparr>channel_id = ''100'', send = (\<lambda>content. Some missing_permissions)\<rparr>]\<rparr>"

section \<open>Properties\<close>

subsection \<open>Strings and promises\<close>

lemma startsWith_iff: "startsWith s t \<longleftrightarrow> (\<exists>q. s = t @ q)"
  by (induction s t rule: startsWith.induct) auto

text \<open>\<open>String_includes s t\<close> holds exactly when \<open>t\<close> occurs in \<open>s\<close>.\<close>

lemma String_includes_iff: "String_includes s t \<longleftrightarrow> (\<exists>p q. s = p @ t @ q)"
proof (induction s)
  case Nil
  then show ?case by auto
next
  case (Cons d s)
  show ?case
  proof
    assume "String_includes (d # s) t"
    then consider "startsWith (d # s) t" | "String_includes s t" by auto
    then show "\<exists>p q. d # s = p @ t @ q"
    proof cases
      case 1
      then obtain q where "d # s = t @ q" by (auto simp: startsWith_iff)
      then have "d # s = [] @ t @ q" by simp
      then show ?thesis by blast
    next
      case 2
      with Cons obtain p q where "s = p @ t @ q" by auto
      then have "d # s = (d # p) @ t @ q" by simp
      then show ?thesis by blast
    qed
  next
    assume "\<exists>p q. d # s = p @ t @ q"
    then obtain p q where pq: "d # s = p @ t @ q" by auto
    show "String_includes (d # s) t"
    proof (cases p)
      case Nil
      with pq have "startsWith (d # s) t" by (auto simp: startsWith_iff)
      then show ?thesis by simp
    next
      case (Cons a p')
      with pq have "s = p' @ t @ q" by simp
      with Cons.IH have "String_includes s t" by blast
      then show ?thesis by simp
    qed
  qed
qed

lemma includes_nonempty: "String_includes m ''limited'' \<Longrightarrow> m \<noteq> []"
  by (cases m) auto

lemma first_rejection_None:
  "first_rejection best ps = None \<longleftrightarrow> best = None \<and> (\<forall>p\<in>set ps. snd p = None)"
  by (induction best ps rule: first_rejection.induct) (auto split: option.splits)

lemma Promise_all_None: "Promise_all ps = None \<longleftrightarrow> (\<forall>p\<in>set ps. snd p = None)"
  by (simp add: Promise_all_def first_rejection_None)

text \<open>The rejection reported is one of the rejections, and none settles before it.\<close>

lemma first_rejection_Some:
  "first_rejection best ps = Some (t, e) \<Longrightarrow>
     (best = Some (t, e) \<or> (t, Some e) \<in> set ps)
     \<and> (\<forall>t' e'. (t', Some e') \<in> set ps \<longrightarrow> t \<le> t')
     \<and> (\<forall>t0 e0. best = Some (t0, e0) \<longrightarrow> t \<le> t0)"
proof (induction best ps rule: first_rejection.induct)
  case (1 best)
  then show ?case by simp
next
  case (2 best u ps)
  then show ?case by auto
next
  case (3 best u x ps)
  let ?b = "case best of None \<Rightarrow> Some (u, x)
            | Some (t0, e0) \<Rightarrow> if u < t0 then Some (u, x) else Some (t0, e0)"
  from 3 have ih: "(?b = Some (t, e) \<or> (t, Some e) \<in> set ps)
     \<and> (\<forall>t' e'. (t', Some e') \<in> set ps \<longrightarrow> t \<le> t')
     \<and> (\<forall>t0 e0. ?b = Some (t0, e0) \<longrightarrow> t \<le> t0)"
    by simp
  show ?case
  proof (cases best)
    case None
    with ih show ?thesis by auto
  next
    case (Some b)
    obtain t0 e0 where b: "b = (t0, e0)" by (cases b)
    show ?thesis
    proof (cases "u < t0")
      case True
      with ih Some b show ?thesis by auto
    next
      case False
      with ih Some b show ?thesis by auto
    qed
  qed
qed

lemma Promise_all_Some:
  "Promise_all ps = Some e \<Longrightarrow>
     \<exists>t. (t, Some e) \<in> set ps \<and> (\<forall>t' e'. (t', Some e') \<in> set ps \<longrightarrow> t \<le> t')"
proof -
  assume "Promise_all ps = Some e"
  then obtain t where "first_rejection None ps = Some (t, e)"
    by (auto simp: Promise_all_def)
  from first_rejection_Some [OF this] show ?thesis by auto
qed

subsection \<open>What each method leaves alone\<close>

lemma dispatches_simps [simp]:
  "dispatches (log l obj t s) = dispatches s"
  "dispatches (s\<lparr>records := r\<rparr>) = dispatches s"
  "dispatches (s\<lparr>logs := ls\<rparr>) = dispatches s"
  "dispatches (s\<lparr>sent := sn\<rparr>) = dispatches s"
  "dispatches (s\<lparr>created := c\<rparr>) = dispatches s"
  "dispatches (s\<lparr>limiter_calls := n\<rparr>) = dispatches s"
  by (simp_all add: dispatches_def log_def)

lemma log_simps [simp]:
  "records (log l obj t s) = records s"
  "sent (log l obj t s) = sent s"
  "created (log l obj t s) = created s"
  "limiter_calls (log l obj t s) = limiter_calls s"
  "requests (log l obj t s) = requests s"
  "logs (log l obj t s) = logs s @ [\<lparr>severity = l, logged = obj, text_of = t\<rparr>]"
  by (simp_all add: log_def)

lemma prepared_simps [simp]:
  "dispatches (prepared na s) = dispatches s"
  "records (prepared na s) = records s"
  "sent (prepared na s) = sent s"
  "requests (prepared na s) = requests s"
  "created (prepared na s) = Suc (created s)"
  "limiter_calls (prepared na s) = limiter_calls s"
  by (simp_all add: prepared_def)

lemma recordFailure_settles: "snd (recordFailure w na m s) = None"
  by (simp add: recordFailure_def Let_def split: option.splits)

lemma recordFailure_dispatches: "dispatches (fst (recordFailure w na m s)) = dispatches s"
  by (simp add: recordFailure_def Let_def split: option.splits)

lemma recordFailure_sent: "sent (fst (recordFailure w na m s)) = sent s"
  by (simp add: recordFailure_def Let_def split: option.splits)

lemma recordFailure_counts:
  "created (fst (recordFailure w na m s)) = created s"
  "limiter_calls (fst (recordFailure w na m s)) = limiter_calls s"
  by (simp_all add: recordFailure_def Let_def split: option.splits)

lemma recordFailure_records:
  "records (fst (recordFailure w na m s)) =
     (if isMongoDatabase w \<and> save w (delivery_data na m) = None
      then records s @ [delivery_data na m] else records s)"
  by (auto simp: recordFailure_def Let_def split: option.splits)

lemma recordFilterBlock_settles: "snd (recordFilterBlock w na s) = None"
  by (simp add: recordFilterBlock_def Let_def split: option.splits)

lemma recordFilterBlock_dispatches: "dispatches (fst (recordFilterBlock w na s)) = dispatches s"
  by (simp add: recordFilterBlock_def Let_def split: option.splits)

lemma recordFilterBlock_sent: "sent (fst (recordFilterBlock w na s)) = sent s"
  by (simp add: recordFilterBlock_def Let_def split: option.splits)

lemma recordFilterBlock_counts:
  "created (fst (recordFilterBlock w na s)) = created s"
  "limiter_calls (fst (recordFilterBlock w na s)) = limiter_calls s"
  by (simp_all add: recordFilterBlock_def Let_def split: option.splits)

lemma recordFilterBlock_records:
  "records (fst (recordFilterBlock w na s)) =
     (if isMongoDatabase w \<and> save w (delivery_data na ''Blocked by filters'') = None
      then records s @ [delivery_data na ''Blocked by filters''] else records s)"
  by (auto simp: recordFilterBlock_def Let_def split: option.splits)

subsection \<open>The failure handler\<close>

text \<open>
  \<open>recordFailure\<close> never rejects, so \<open>handleArticleFailure\<close> always goes on to read
  \<open>err.message\<close>.
\<close>

lemma handleArticleFailure_split:
  "handleArticleFailure w na err s =
     (let s1 = fst (recordFailure w na (js_or_text (message err) ''N/A'') s)
      in case message err of
           None \<Rightarrow> (s1, Some (TypeError_property ''includes''))
         | Some m \<Rightarrow>
             if String_includes m ''limited''
             then (log Debug (ErrorObject err) ''Ignoring rate-limited article'' s1, None)
             else
               (let s2 = log Warn (ErrorObject err)
                           (''Failed to deliver article '' @ article_id (article na)
                              @ '' ('' @ template (link (article na)) @ '') of feed ''
                              @ feed_id (feedObject na)) s1
                in if code err = Some 50035
                   then (case getChannel (cache_on_failure w) na of
                           None \<Rightarrow> (s2, Some (TypeError_property ''send''))
                         | Some c \<Rightarrow>
                             (s2\<lparr>sent := sent s2 @ [(channel_id c, failure_notice na m)]\<rparr>,
                              send c (failure_notice na m)))
                   else (s2, None)))"
proof -
  obtain s1 r where rf: "recordFailure w na (js_or_text (message err) ''N/A'') s = (s1, r)"
    by (cases "recordFailure w na (js_or_text (message err) ''N/A'') s")
  with recordFailure_settles [of w na "js_or_text (message err) ''N/A''" s] have "r = None" by simp
  with rf show ?thesis by (simp add: handleArticleFailure_def Let_def)
qed

lemma handleArticleFailure_dispatches:
  "dispatches (fst (handleArticleFailure w na err s)) = dispatches s"
  by (simp add: handleArticleFailure_split Let_def recordFailure_dispatches
      split: option.splits)

lemma handleArticleFailure_counts:
  "created (fst (handleArticleFailure w na err s)) = created s"
  "limiter_calls (fst (handleArticleFailure w na err s)) = limiter_calls s"
  by (simp_all add: handleArticleFailure_split Let_def recordFailure_counts split: option.splits)

lemma handleArticleFailure_records:
  "records (fst (handleArticleFailure w na err s)) =
     records (fst (recordFailure w na (js_or_text (message err) ''N/A'') s))"
  by (simp add: handleArticleFailure_split Let_def split: option.splits)

subsection \<open>The paths through deliver\<close>

lemma deliver_catch:
  "getChannel (cache_on_entry w) na = Some ch \<Longrightarrow> deliver_try w p na debug s = (s1, Some err)
     \<Longrightarrow> deliver w p na debug s = handleArticleFailure w na err s1"
  by (simp add: deliver_def)

lemma deliver_resolved:
  "getChannel (cache_on_entry w) na = Some ch \<Longrightarrow> deliver_try w p na debug s = (s1, None)
     \<Longrightarrow> deliver w p na debug s = (s1, None)"
  by (simp add: deliver_def)

lemma deliver_try_passed:
  "create w (feedObject na) (article na) debug = Inr am \<Longrightarrow> passedFilters am
     \<Longrightarrow> deliver_try w p na debug s = sendNewArticle w p na am (prepared na s)"
  by (simp add: deliver_try_def createArticleMessage_def prepared_def)

subsection \<open>A destination missing on entry\<close>

text \<open>
  Claim C6. When the channel of the feed is absent from the cache on entry of \<open>deliver\<close>,
  the call resolves at once and the state is the one it started in: no record is written,
  no \<open>ArticleMessage\<close> is created, nothing is logged, and nothing is dispatched.
\<close>

theorem deliver_missing_channel_dropped:
  assumes "getChannel (cache_on_entry w) newArticle = None"
  shows "deliver w p newArticle debug s = (s, None)"
  using assms by (simp add: deliver_def)

theorem deliver_missing_channel_dropped_witness:
  "deliver (example_world\<lparr>cache_on_entry := Map.empty\<rparr>) queue_pipeline example_article False
     initial_state = (initial_state, None)"
  using deliver_missing_channel_dropped
    [of "example_world\<lparr>cache_on_entry := Map.empty\<rparr>" example_article queue_pipeline
      False initial_state]
  by (simp add: getChannel_def)

subsection \<open>A rate-limited article\<close>

text \<open>
  Claim C1, as the code has it. When the rate limiter rejects the article with an error
  whose message contains "limited", \<open>deliver\<close> resolves and dispatches nothing: no call to
  the REST producer, no queue created or written, nothing sent to the channel. It does
  record the failure: with the record store enabled and the write succeeding, the store
  gains one record with \<open>delivered = false\<close> and the message of the limiter's error as
  its comment; otherwise the store is unchanged.
\<close>

theorem deliver_rate_limited:
  assumes ch: "getChannel (cache_on_entry w) newArticle = Some ch"
    and cr: "create w (feedObject newArticle) (article newArticle) debug = Inr am"
    and pf: "passedFilters am"
    and rl: "assertWithinLimits w am = Some err"
    and m: "message err = Some m"
    and inc: "String_includes m ''limited''"
  shows "snd (deliver w p newArticle debug s) = None
       \<and> dispatches (fst (deliver w p newArticle debug s)) = dispatches s
       \<and> sent (fst (deliver w p newArticle debug s)) = sent s
       \<and> records (fst (deliver w p newArticle debug s)) =
           (if isMongoDatabase w \<and> save w (delivery_data newArticle m) = None
            then records s @ [delivery_data newArticle m] else records s)"
proof -
  let ?s1 = "(prepared newArticle s)\<lparr>limiter_calls := Suc (limiter_calls (prepared newArticle s))\<rparr>"
  have "deliver_try w p newArticle debug s = (?s1, Some err)"
    using cr pf rl by (simp add: deliver_try_passed sendNewArticle_def Let_def)
  with ch have d: "deliver w p newArticle debug s = handleArticleFailure w newArticle err ?s1"
    by (rule deliver_catch)
  from inc have ne: "m \<noteq> []" by (rule includes_nonempty)
  have 1: "snd (handleArticleFailure w newArticle err ?s1) = None"
    using m inc by (simp add: handleArticleFailure_split Let_def)
  have 2: "dispatches (fst (handleArticleFailure w newArticle err ?s1)) = dispatches s"
    by (simp add: handleArticleFailure_dispatches)
  have 3: "sent (fst (handleArticleFailure w newArticle err ?s1)) = sent s"
    using m inc by (simp add: handleArticleFailure_split Let_def recordFailure_sent)
  have 4: "records (fst (handleArticleFailure w newArticle err ?s1)) =
           (if isMongoDatabase w \<and> save w (delivery_data newArticle m) = None
            then records s @ [delivery_data newArticle m] else records s)"
    using m ne by (simp add: handleArticleFailure_records recordFailure_records)
  show ?thesis unfolding d using 1 2 3 4 by blast
qed

theorem deliver_rate_limited_witness:
  "snd (deliver rate_limited_world queue_pipeline example_article False initial_state) = None
   \<and> dispatches (fst (deliver rate_limited_world queue_pipeline example_article False initial_state))
       = dispatches initial_state
   \<and> sent (fst (deliver rate_limited_world queue_pipeline example_article False initial_state)) = []
   \<and> records (fst (deliver rate_limited_world queue_pipeline example_article False initial_state))
       = [delivery_data example_article ''Rate limited article'']"
  using deliver_rate_limited
    [of rate_limited_world example_article example_channel False example_message
      "new_Error ''Rate limited article''" "''Rate limited article''" queue_pipeline initial_state]
  by (simp add: example_article_def example_channel_def example_message_def example_world_def
      DeliveryPipeline_def initial_state_def getChannel_def delivery_data_def
      rate_limited_world_def queue_pipeline_def new_Error_def)

text \<open>
  The claim as the specification states it (the record store is unchanged) fails: with the
  store enabled, the rate-limited article leaves a record behind.
\<close>

theorem deliver_rate_limited_store_changed:
  "records (fst (deliver rate_limited_world queue_pipeline example_article False initial_state))
     \<noteq> records initial_state"
  by (simp add: example_article_def example_channel_def example_message_def example_world_def
      DeliveryPipeline_def initial_state_def getChannel_def delivery_data_def
      rate_limited_world_def queue_pipeline_def new_Error_def
      deliver_def deliver_try_def createArticleMessage_def
      sendNewArticle_def handleArticleFailure_def recordFailure_def log_def Let_def)

subsection \<open>More on the failure handler and on sendToService\<close>

lemma handleArticleFailure_requests:
  "requests (fst (handleArticleFailure w na err s)) = requests s"
  using handleArticleFailure_dispatches [of w na err s] by (simp add: dispatches_def)

lemma handleArticleFailure_registry:
  "queues (fst (handleArticleFailure w na err s)) = queues s"
  "queue_store (fst (handleArticleFailure w na err s)) = queue_store s"
  "next_queue (fst (handleArticleFailure w na err s)) = next_queue s"
  using handleArticleFailure_dispatches [of w na err s] by (simp_all add: dispatches_def)

lemma handleArticleFailure_sent:
  "sent (fst (handleArticleFailure w na err s)) =
     (case message err of
        None \<Rightarrow> sent s
      | Some m \<Rightarrow>
          if \<not> String_includes m ''limited'' \<and> code err = Some 50035
          then (case getChannel (cache_on_failure w) na of
                  None \<Rightarrow> sent s
                | Some c \<Rightarrow> sent s @ [(channel_id c, failure_notice na m)])
          else sent s)"
  by (simp add: handleArticleFailure_split Let_def recordFailure_sent split: option.splits)

lemma handleArticleFailure_settles:
  "snd (handleArticleFailure w na err s) =
     (case message err of
        None \<Rightarrow> Some (TypeError_property ''includes'')
      | Some m \<Rightarrow>
          if \<not> String_includes m ''limited'' \<and> code err = Some 50035
          then (case getChannel (cache_on_failure w) na of
                  None \<Rightarrow> Some (TypeError_property ''send'')
                | Some c \<Rightarrow> send c (failure_notice na m))
          else None)"
  by (simp add: handleArticleFailure_split Let_def split: option.splits)

lemma sendToService_missing:
  "getMedium am = Inr None \<Longrightarrow>
     sendToService producer na am s =
       (s, Some (new_Error ''Missing medium to send article via service''))"
  by (simp add: sendToService_def)

lemma sendToService_medium:
  "getMedium am = Inr (Some md) \<Longrightarrow>
     sendToService producer na am s =
       (s\<lparr>requests := requests s @ map (api_request na md) (apiPayloads_of na am md)\<rparr>,
        Promise_all (map (enqueue producer) (map (api_request na md) (apiPayloads_of na am md))))"
  by (simp add: sendToService_def Let_def)

subsection \<open>A medium that vanished before the dispatch\<close>

text \<open>
  Claim C2, as the code has it. The channel is cached on entry, the article passes the
  filters and the rate limiter, a REST producer is configured, and \<open>getMedium\<close> finds no
  medium. Then \<open>deliver\<close> resolves (no exception leaves it), and nothing is dispatched or
  sent to the channel. The error "Missing medium to send article via service" goes
  through \<open>handleArticleFailure\<close> like any other: with the record store enabled and the
  write succeeding, one record with that comment is added; otherwise the store is
  unchanged.
\<close>

theorem deliver_medium_vanished:
  assumes ch: "getChannel (cache_on_entry w) newArticle = Some ch"
    and cr: "create w (feedObject newArticle) (article newArticle) debug = Inr am"
    and pf: "passedFilters am"
    and adm: "assertWithinLimits w am = None"
    and prod: "restProducer p = Some producer"
    and med: "getMedium am = Inr None"
  shows "snd (deliver w p newArticle debug s) = None
       \<and> dispatches (fst (deliver w p newArticle debug s)) = dispatches s
       \<and> sent (fst (deliver w p newArticle debug s)) = sent s
       \<and> records (fst (deliver w p newArticle debug s)) =
           (if isMongoDatabase w
               \<and> save w (delivery_data newArticle ''Missing medium to send article via service'') = None
            then records s @ [delivery_data newArticle ''Missing medium to send article via service'']
            else records s)"
proof -
  let ?e = "new_Error ''Missing medium to send article via service''"
  let ?s1 = "(prepared newArticle s)\<lparr>limiter_calls := Suc (limiter_calls (prepared newArticle s))\<rparr>"
  have "deliver_try w p newArticle debug s = (?s1, Some ?e)"
    using cr pf adm prod med
    by (simp add: deliver_try_passed sendNewArticle_def Let_def sendToService_missing)
  with ch have d: "deliver w p newArticle debug s = handleArticleFailure w newArticle ?e ?s1"
    by (rule deliver_catch)
  have 1: "snd (handleArticleFailure w newArticle ?e ?s1) = None"
    by (simp add: handleArticleFailure_split Let_def new_Error_def)
  have 2: "dispatches (fst (handleArticleFailure w newArticle ?e ?s1)) = dispatches s"
    by (simp add: handleArticleFailure_dispatches)
  have 3: "sent (fst (handleArticleFailure w newArticle ?e ?s1)) = sent s"
    by (simp add: handleArticleFailure_split Let_def recordFailure_sent new_Error_def)
  have 4: "records (fst (handleArticleFailure w newArticle ?e ?s1)) =
           (if isMongoDatabase w
               \<and> save w (delivery_data newArticle ''Missing medium to send article via service'') = None
            then records s @ [delivery_data newArticle ''Missing medium to send article via service'']
            else records s)"
    by (simp add: handleArticleFailure_records recordFailure_records new_Error_def)
  show ?thesis unfolding d using 1 2 3 4 by blast
qed

theorem deliver_medium_vanished_witness:
  "snd (deliver vanished_world direct_pipeline example_article False initial_state) = None
   \<and> dispatches (fst (deliver vanished_world direct_pipeline example_article False initial_state))
       = dispatches initial_state
   \<and> sent (fst (deliver vanished_world direct_pipeline example_article False initial_state)) = []
   \<and> records (fst (deliver vanished_world direct_pipeline example_article False initial_state))
       = [delivery_data example_article ''Missing medium to send article via service'']"
  using deliver_medium_vanished
    [of vanished_world example_article example_channel False
      "example_message\<lparr>getMedium := Inr None\<rparr>" direct_pipeline example_producer initial_state]
  by (simp add: example_article_def example_channel_def example_message_def example_world_def
      DeliveryPipeline_def initial_state_def getChannel_def delivery_data_def
      vanished_world_def direct_pipeline_def example_producer_def new_Error_def)

text \<open>
  The claim as the specification states it (no outcome is recorded) fails: with the store
  enabled, the vanished medium leaves a failure record behind.
\<close>

theorem deliver_medium_vanished_recorded:
  "records (fst (deliver vanished_world direct_pipeline example_article False initial_state))
     \<noteq> records initial_state"
  by (simp add: example_article_def example_channel_def example_message_def example_world_def
      DeliveryPipeline_def initial_state_def getChannel_def delivery_data_def
      vanished_world_def direct_pipeline_def example_producer_def new_Error_def
      deliver_def deliver_try_def createArticleMessage_def handleArticleBlocked_def
      sendNewArticle_def sendToService_def handleArticleFailure_def recordFailure_def
      recordFilterBlock_def log_def Let_def)

subsection \<open>An article blocked by the filters\<close>

text \<open>
  Claim C4, as the code has it. When the message does not pass the filters, \<open>deliver\<close>
  resolves without dispatching anything: no call to the REST producer, no queue created
  or written, no call to the rate limiter, nothing sent to the channel. With the record
  store enabled and the write succeeding, exactly one record is added, with
  \<open>delivered = false\<close> and the comment "Blocked by filters" (capital B); with the store
  disabled or the write failing, no record is added.
\<close>

theorem deliver_blocked_by_filters:
  assumes ch: "getChannel (cache_on_entry w) newArticle = Some ch"
    and cr: "create w (feedObject newArticle) (article newArticle) debug = Inr am"
    and nf: "\<not> passedFilters am"
  shows "snd (deliver w p newArticle debug s) = None
       \<and> dispatches (fst (deliver w p newArticle debug s)) = dispatches s
       \<and> limiter_calls (fst (deliver w p newArticle debug s)) = limiter_calls s
       \<and> sent (fst (deliver w p newArticle debug s)) = sent s
       \<and> records (fst (deliver w p newArticle debug s)) =
           (if isMongoDatabase w \<and> save w (delivery_data newArticle ''Blocked by filters'') = None
            then records s @
                 [\<lparr>articleID = article_id (article newArticle),
                   feedURL = url (feedObject newArticle),
                   record_channel = channel (feedObject newArticle),
                   delivered = False,
                   comment = ''Blocked by filters''\<rparr>]
            else records s)"
proof -
  let ?s0 = "s\<lparr>created := Suc (created s)\<rparr>"
  let ?s1 = "if logFiltered p
         then log Info NoObject
                ([CHR 0x27]
                   @ template (js_or (link (article newArticle)) (title (article newArticle)))
                   @ [CHR 0x27] @ '' did not pass filters and was not sent'') ?s0
         else ?s0"
  have t: "deliver_try w p newArticle debug s = recordFilterBlock w newArticle ?s1"
    using cr nf by (simp add: deliver_try_def createArticleMessage_def handleArticleBlocked_def Let_def)
  obtain s2 r where rb: "recordFilterBlock w newArticle ?s1 = (s2, r)"
    by (cases "recordFilterBlock w newArticle ?s1")
  with recordFilterBlock_settles [of w newArticle ?s1] have r: "r = None" by simp
  from ch t rb r have d: "deliver w p newArticle debug s = (s2, None)"
    by (simp add: deliver_resolved)
  from rb have s2: "s2 = fst (recordFilterBlock w newArticle ?s1)" by simp
  have 2: "dispatches s2 = dispatches s"
    unfolding s2 by (simp add: recordFilterBlock_dispatches)
  have 3: "limiter_calls s2 = limiter_calls s"
    unfolding s2 by (simp add: recordFilterBlock_counts)
  have 4: "sent s2 = sent s"
    unfolding s2 by (simp add: recordFilterBlock_sent)
  have 5: "records s2 =
           (if isMongoDatabase w \<and> save w (delivery_data newArticle ''Blocked by filters'') = None
            then records s @ [delivery_data newArticle ''Blocked by filters''] else records s)"
    unfolding s2 by (simp add: recordFilterBlock_records)
  show ?thesis unfolding d using 2 3 4 5 by (simp add: delivery_data_def)
qed

theorem deliver_blocked_by_filters_witness:
  "snd (deliver blocked_world direct_pipeline example_article False initial_state) = None
   \<and> dispatches (fst (deliver blocked_world direct_pipeline example_article False initial_state))
       = dispatches initial_state
   \<and> limiter_calls (fst (deliver blocked_world direct_pipeline example_article False initial_state)) = 0
   \<and> sent (fst (deliver blocked_world direct_pipeline example_article False initial_state)) = []
   \<and> records (fst (deliver blocked_world direct_pipeline example_article False initial_state))
       = [\<lparr>articleID = ''a1'', feedURL = ''https://example.com/rss'', record_channel = ''100'',
           delivered = False, comment = ''Blocked by filters''\<rparr>]"
  using deliver_blocked_by_filters
    [of blocked_world example_article example_channel False
      "example_message\<lparr>passedFilters := False\<rparr>" direct_pipeline initial_state]
  by (simp add: example_article_def example_channel_def example_message_def example_world_def
      DeliveryPipeline_def initial_state_def getChannel_def delivery_data_def
      blocked_world_def direct_pipeline_def example_producer_def)

text \<open>
  The claim as the specification states it fails twice: the comment written is not
  "blocked by filters", and with the record store disabled no outcome is recorded at all.
\<close>

theorem deliver_blocked_comment_differs:
  "records (fst (deliver blocked_world direct_pipeline example_article False initial_state))
     \<noteq> [\<lparr>articleID = ''a1'', feedURL = ''https://example.com/rss'', record_channel = ''100'',
           delivered = False, comment = ''blocked by filters''\<rparr>]
   \<and> records (fst (deliver (blocked_world\<lparr>isMongoDatabase := False\<rparr>) direct_pipeline
         example_article False initial_state)) = []"
  by (simp add: example_article_def example_channel_def example_message_def example_world_def
      DeliveryPipeline_def initial_state_def getChannel_def delivery_data_def
      blocked_world_def direct_pipeline_def example_producer_def
      deliver_def deliver_try_def createArticleMessage_def handleArticleBlocked_def
      sendNewArticle_def sendToService_def handleArticleFailure_def recordFailure_def
      recordFilterBlock_def log_def Let_def)

subsection \<open>A dispatch rejected as a bad request\<close>

text \<open>
  Claim C5, as the code has it. A REST producer is configured, the medium exists, and the
  dispatch rejects with an error of code 50035 whose message is not empty and does not
  contain "limited"; the channel is still cached when the failure is handled. Then
  the record store gains one record with \<open>delivered = false\<close> and the error message as
  its comment (when the store is enabled and the write succeeds; none otherwise), exactly
  one notice carrying the error text is sent to the channel, and nothing is dispatched
  again: the requests are those of the first attempt and the registry of queues is
  untouched. \<open>deliver\<close> settles as the \<open>send\<close> of the notice does.
\<close>

theorem deliver_bad_request:
  assumes ch: "getChannel (cache_on_entry w) newArticle = Some ch"
    and cr: "create w (feedObject newArticle) (article newArticle) debug = Inr am"
    and pf: "passedFilters am"
    and adm: "assertWithinLimits w am = None"
    and prod: "restProducer p = Some producer"
    and med: "getMedium am = Inr (Some md)"
    and rej: "Promise_all (map (enqueue producer)
                (map (api_request newArticle md) (apiPayloads_of newArticle am md))) = Some err"
    and bad: "code err = Some 50035"
    and m: "message err = Some m"
    and ne: "m \<noteq> []"
    and ninc: "\<not> String_includes m ''limited''"
    and chf: "getChannel (cache_on_failure w) newArticle = Some c"
  shows "records (fst (deliver w p newArticle debug s)) =
           (if isMongoDatabase w \<and> save w (delivery_data newArticle m) = None
            then records s @
                 [\<lparr>articleID = article_id (article newArticle),
                   feedURL = url (feedObject newArticle),
                   record_channel = channel (feedObject newArticle),
                   delivered = False,
                   comment = m\<rparr>]
            else records s)
       \<and> sent (fst (deliver w p newArticle debug s)) =
           sent s @ [(channel_id c,
                      ''Failed to send article <'' @ template (link (article newArticle))
                        @ ''>.```'' @ m @ ''```'')]
       \<and> requests (fst (deliver w p newArticle debug s)) =
           requests s @ map (api_request newArticle md) (apiPayloads_of newArticle am md)
       \<and> queues (fst (deliver w p newArticle debug s)) = queues s
       \<and> queue_store (fst (deliver w p newArticle debug s)) = queue_store s
       \<and> next_queue (fst (deliver w p newArticle debug s)) = next_queue s
       \<and> snd (deliver w p newArticle debug s) =
           send c (''Failed to send article <'' @ template (link (article newArticle))
                     @ ''>.```'' @ m @ ''```'')"
proof -
  let ?reqs = "map (api_request newArticle md) (apiPayloads_of newArticle am md)"
  let ?s0 = "(prepared newArticle s)\<lparr>limiter_calls := Suc (limiter_calls (prepared newArticle s))\<rparr>"
  let ?s1 = "?s0\<lparr>requests := requests ?s0 @ ?reqs\<rparr>"
  have "deliver_try w p newArticle debug s = (?s1, Some err)"
    using cr pf adm prod med rej
    by (simp add: deliver_try_passed sendNewArticle_def Let_def sendToService_medium)
  with ch have d: "deliver w p newArticle debug s = handleArticleFailure w newArticle err ?s1"
    by (rule deliver_catch)
  have 1: "records (fst (handleArticleFailure w newArticle err ?s1)) =
           (if isMongoDatabase w \<and> save w (delivery_data newArticle m) = None
            then records s @ [delivery_data newArticle m] else records s)"
    using m ne by (simp add: handleArticleFailure_records recordFailure_records)
  have 2: "sent (fst (handleArticleFailure w newArticle err ?s1)) =
           sent s @ [(channel_id c, failure_notice newArticle m)]"
    using m ninc bad chf by (simp add: handleArticleFailure_sent)
  have 3: "requests (fst (handleArticleFailure w newArticle err ?s1)) = requests s @ ?reqs"
    by (simp add: handleArticleFailure_requests)
  have 4: "queues (fst (handleArticleFailure w newArticle err ?s1)) = queues s"
    "queue_store (fst (handleArticleFailure w newArticle err ?s1)) = queue_store s"
    "next_queue (fst (handleArticleFailure w newArticle err ?s1)) = next_queue s"
    by (simp_all add: handleArticleFailure_registry prepared_def log_def)
  have 5: "snd (handleArticleFailure w newArticle err ?s1) = send c (failure_notice newArticle m)"
    using m ninc bad chf by (simp add: handleArticleFailure_settles)
  show ?thesis unfolding d using 1 2 3 4 5 by (simp add: delivery_data_def failure_notice_def)
qed

theorem deliver_bad_request_witness:
  "records (fst (deliver example_world (rejecting_pipeline bad_request) example_article False
       initial_state))
     = [\<lparr>articleID = ''a1'', feedURL = ''https://example.com/rss'', record_channel = ''100'',
         delivered = False, comment = ''Invalid Form Body''\<rparr>]
   \<and> sent (fst (deliver example_world (rejecting_pipeline bad_request) example_article False
       initial_state))
     = [(''100'', ''Failed to send article <https://example.com/1>.```Invalid Form Body```'')]
   \<and> length (requests (fst (deliver example_world (rejecting_pipeline bad_request) example_article
       False initial_state))) = 2
   \<and> snd (deliver example_world (rejecting_pipeline bad_request) example_article False
       initial_state) = None"
  using deliver_bad_request
    [of example_world example_article example_channel False example_message
      "rejecting_pipeline bad_request" "\<lparr>enqueue = (\<lambda>request. (0, Some bad_request))\<rparr>"
      "TextChannel ''100''" bad_request "''Invalid Form Body''" example_channel initial_state]
  by (simp add: example_article_def example_channel_def example_message_def example_world_def
      DeliveryPipeline_def initial_state_def getChannel_def delivery_data_def
      bad_request_def rejecting_pipeline_def Promise_all_def apiPayloads_of_def)

text \<open>
  The claim as the specification states it fails: with the record store disabled no
  outcome is recorded, and an error of code 50035 whose message contains "limited" is
  taken for a rate limit, so that no notice is sent.
\<close>

theorem deliver_bad_request_unrecorded_or_unnoticed:
  "records (fst (deliver (example_world\<lparr>isMongoDatabase := False\<rparr>) (rejecting_pipeline bad_request)
       example_article False initial_state)) = []
   \<and> sent (fst (deliver example_world
       (rejecting_pipeline (bad_request\<lparr>message := Some ''Invalid Form Body: limited to 2000''\<rparr>))
       example_article False initial_state)) = []"
  by (simp add: example_article_def example_channel_def example_message_def example_world_def
      DeliveryPipeline_def initial_state_def getChannel_def delivery_data_def
      bad_request_def rejecting_pipeline_def Promise_all_def apiPayloads_of_def
      deliver_def deliver_try_def createArticleMessage_def handleArticleBlocked_def
      sendNewArticle_def sendToService_def handleArticleFailure_def recordFailure_def
      recordFilterBlock_def log_def Let_def)

subsection \<open>Errors that leave deliver\<close>

text \<open>
  Claim C3 fails on the code. The \<open>catch\<close> of \<open>deliver\<close> awaits \<open>handleArticleFailure\<close>,
  and what that handler throws leaves \<open>deliver\<close>. For a dispatch rejected as a bad request
  (code 50035): when the \<open>send\<close> of the notice rejects, \<open>deliver\<close> rejects with that
  error; when the channel has left the cache since the entry of \<open>deliver\<close>, the handler
  reads \<open>send\<close> of \<open>undefined\<close> and \<open>deliver\<close> rejects with the \<open>TypeError\<close>.
\<close>

theorem deliver_rejects_when_notice_fails:
  "snd (deliver closed_channel_world (rejecting_pipeline bad_request) example_article False
       initial_state) = Some missing_permissions
   \<and> snd (deliver (example_world\<lparr>cache_on_failure := Map.empty\<rparr>) (rejecting_pipeline bad_request)
       example_article False initial_state) = Some (TypeError_property ''send'')"
  by (simp add: example_article_def example_channel_def example_message_def example_world_def
      DeliveryPipeline_def initial_state_def getChannel_def delivery_data_def
      closed_channel_world_def missing_permissions_def bad_request_def
      rejecting_pipeline_def Promise_all_def apiPayloads_of_def new_Error_def
      deliver_def deliver_try_def createArticleMessage_def handleArticleBlocked_def
      sendNewArticle_def sendToService_def handleArticleFailure_def recordFailure_def
      recordFilterBlock_def log_def Let_def)

subsection \<open>Direct send and queue\<close>

lemma Promise_all_map_None:
  "Promise_all (map f xs) = None \<Longrightarrow> \<forall>x\<in>set xs. snd (f x) = None"
  by (simp add: Promise_all_None)

lemma Promise_all_map_Some:
  assumes "Promise_all (map f xs) = Some e"
  shows "\<exists>x\<in>set xs. snd (f x) = Some e
           \<and> (\<forall>y\<in>set xs. snd (f y) \<noteq> None \<longrightarrow> fst (f x) \<le> fst (f y))"
proof -
  from Promise_all_Some [OF assms] obtain t
    where t: "(t, Some e) \<in> set (map f xs)"
      and least: "\<And>t' e'. (t', Some e') \<in> set (map f xs) \<Longrightarrow> t \<le> t'"
    by blast
  from t obtain x where x: "x \<in> set xs" "f x = (t, Some e)" by auto
  have "fst (f x) \<le> fst (f y)" if y: "y \<in> set xs" "snd (f y) \<noteq> None" for y
  proof -
    from y(2) obtain e' where "snd (f y) = Some e'" by auto
    then have "f y = (fst (f y), Some e')" by (cases "f y") simp
    with y(1) have "(fst (f y), Some e') \<in> set (map f xs)" by force
    from least [OF this] x(2) show ?thesis by simp
  qed
  then have "\<forall>y\<in>set xs. snd (f y) \<noteq> None \<longrightarrow> fst (f x) \<le> fst (f y)" by blast
  moreover from x(2) have "snd (f x) = Some e" by simp
  ultimately show ?thesis using x(1) by blast
qed

text \<open>The requests of \<open>sendToService\<close>, written out.\<close>

lemma api_requests_explicit:
  "map (api_request na md) (apiPayloads_of na am md) =
     map (\<lambda>payload.
            \<lparr>req_url = ''https://discord.com/api''
               @ (case md of
                    Webhook i t \<Rightarrow> ''/webhooks/'' @ i @ ''/'' @ t
                  | TextChannel i \<Rightarrow> ''/channels/'' @ i @ ''/messages''),
             req_method = ''POST'',
             req_body = payload,
             meta_articleID = article_id (article na),
             meta_feedURL = url (feedObject na),
             meta_channel = channel (feedObject na)\<rparr>)
         (createAPIPayloads am
            (case md of Webhook i t \<Rightarrow> webhook (feedObject na) | TextChannel i \<Rightarrow> None))"
  by (simp add: api_request_def apiRoute_def apiPayloads_of_def JSON_stringify_def)

lemma sendNewArticle_direct:
  assumes "assertWithinLimits w am = None" "restProducer p = Some producer"
    "getMedium am = Inr (Some md)"
  shows "requests (fst (sendNewArticle w p na am s)) =
           requests s @ map (api_request na md) (apiPayloads_of na am md)"
    and "snd (sendNewArticle w p na am s) =
           Promise_all (map (enqueue producer) (map (api_request na md) (apiPayloads_of na am md)))"
    and "queues (fst (sendNewArticle w p na am s)) = queues s"
    and "queue_store (fst (sendNewArticle w p na am s)) = queue_store s"
    and "next_queue (fst (sendNewArticle w p na am s)) = next_queue s"
proof -
  let ?reqs = "map (api_request na md) (apiPayloads_of na am md)"
  let ?s0 = "s\<lparr>limiter_calls := Suc (limiter_calls s)\<rparr>"
  have sts: "sendToService producer na am ?s0 =
      (?s0\<lparr>requests := requests ?s0 @ ?reqs\<rparr>, Promise_all (map (enqueue producer) ?reqs))"
    using assms(3) by (rule sendToService_medium)
  show "requests (fst (sendNewArticle w p na am s)) = requests s @ ?reqs"
    using assms(1,2) sts by (simp add: sendNewArticle_def Let_def split: option.splits)
  show "snd (sendNewArticle w p na am s) = Promise_all (map (enqueue producer) ?reqs)"
    using assms(1,2) sts by (simp add: sendNewArticle_def Let_def split: option.splits)
  show "queues (fst (sendNewArticle w p na am s)) = queues s"
    "queue_store (fst (sendNewArticle w p na am s)) = queue_store s"
    "next_queue (fst (sendNewArticle w p na am s)) = next_queue s"
    using assms(1,2) sts by (simp_all add: sendNewArticle_def Let_def log_def split: option.splits)
qed

lemma sendNewArticle_no_medium:
  assumes "assertWithinLimits w am = None" "restProducer p = Some producer"
    "\<And>md. getMedium am \<noteq> Inr (Some md)"
  shows "requests (fst (sendNewArticle w p na am s)) = requests s"
    and "snd (sendNewArticle w p na am s) \<noteq> None"
    and "queues (fst (sendNewArticle w p na am s)) = queues s"
    and "queue_store (fst (sendNewArticle w p na am s)) = queue_store s"
    and "next_queue (fst (sendNewArticle w p na am s)) = next_queue s"
  using assms
  by (auto simp: sendNewArticle_def sendToService_def Let_def split: sum.splits option.splits)

lemma sendNewArticle_queue:
  assumes "assertWithinLimits w am = None" "restProducer p = None"
  shows "requests (fst (sendNewArticle w p na am s)) = requests s"
    and "snd (sendNewArticle w p na am s) = None"
    and "queued (channel (feedObject na)) (fst (sendNewArticle w p na am s)) =
           queued (channel (feedObject na)) s @ [(na, am)]"
  using assms
  by (auto simp: sendNewArticle_def getQueueForChannel_def ArticleQueue_enqueue_def queued_def
      log_def Let_def split: option.splits)

text \<open>
  Claim C7, as the code has it. For an article that passed the filters and that the rate
  limiter admits, \<open>deliver\<close> runs \<open>sendNewArticle\<close> and treats its rejection as the
  failure of the whole article (it goes to \<open>handleArticleFailure\<close>).

  With a REST producer and a medium that \<open>getMedium\<close> still finds: for each payload of
  \<open>createAPIPayloads\<close>, in their order, one request goes to the producer, a \<open>POST\<close> to
  \<open>https://discord.com/api\<close> followed by \<open>/channels/<id>/messages\<close> or
  \<open>/webhooks/<id>/<token>\<close>, with the payload as body and the article id, feed URL and
  channel as metadata. All of them are issued whether or not one rejects, and the registry
  of queues is untouched. \<open>sendNewArticle\<close> resolves when every request resolves;
  otherwise it rejects with the rejection of one of the requests, one that settles no later
  than any other rejecting request.

  With a REST producer and no medium (or a rejecting \<open>getMedium\<close>), nothing is dispatched
  and \<open>sendNewArticle\<close> rejects. With no REST producer, the article is appended to the
  queue of its channel, no request is made and \<open>sendNewArticle\<close> resolves.
\<close>

theorem deliver_dispatch_modes:
  assumes ch: "getChannel (cache_on_entry w) newArticle = Some ch"
    and cr: "create w (feedObject newArticle) (article newArticle) debug = Inr am"
    and pf: "passedFilters am"
    and adm: "assertWithinLimits w am = None"
  shows "deliver w p newArticle debug s =
           (case sendNewArticle w p newArticle am (prepared newArticle s) of
              (s1, Some err) \<Rightarrow> handleArticleFailure w newArticle err s1
            | (s1, None) \<Rightarrow> (s1, None))
       \<and> (let R = sendNewArticle w p newArticle am (prepared newArticle s)
          in case restProducer p of
               Some producer \<Rightarrow>
                 (case getMedium am of
                    Inr (Some md) \<Rightarrow>
                      (let reqs =
                         map (\<lambda>payload.
                                \<lparr>req_url = ''https://discord.com/api''
                                   @ (case md of
                                        Webhook i t \<Rightarrow> ''/webhooks/'' @ i @ ''/'' @ t
                                      | TextChannel i \<Rightarrow> ''/channels/'' @ i @ ''/messages''),
                                 req_method = ''POST'',
                                 req_body = payload,
                                 meta_articleID = article_id (article newArticle),
                                 meta_feedURL = url (feedObject newArticle),
                                 meta_channel = channel (feedObject newArticle)\<rparr>)
                             (createAPIPayloads am
                                (case md of
                                   Webhook i t \<Rightarrow> webhook (feedObject newArticle)
                                 | TextChannel i \<Rightarrow> None))
                       in requests (fst R) = requests s @ reqs
                          \<and> queues (fst R) = queues s
                          \<and> queue_store (fst R) = queue_store s
                          \<and> next_queue (fst R) = next_queue s
                          \<and> (case snd R of
                               None \<Rightarrow> \<forall>rq\<in>set reqs. snd (enqueue producer rq) = None
                             | Some err \<Rightarrow>
                                 \<exists>rq\<in>set reqs.
                                   snd (enqueue producer rq) = Some err
                                   \<and> (\<forall>rq'\<in>set reqs.
                                         snd (enqueue producer rq') \<noteq> None \<longrightarrow>
                                         fst (enqueue producer rq) \<le> fst (enqueue producer rq'))))
                  | _ \<Rightarrow> snd R \<noteq> None \<and> dispatches (fst R) = dispatches s)
             | None \<Rightarrow>
                 requests (fst R) = requests s
                 \<and> snd R = None
                 \<and> queued (channel (feedObject newArticle)) (fst R) =
                     queued (channel (feedObject newArticle)) s @ [(newArticle, am)])"
proof -
  let ?R = "sendNewArticle w p newArticle am (prepared newArticle s)"
  have t: "deliver_try w p newArticle debug s = ?R"
    using cr pf by (rule deliver_try_passed)
  have a: "deliver w p newArticle debug s =
           (case ?R of (s1, Some err) \<Rightarrow> handleArticleFailure w newArticle err s1
            | (s1, None) \<Rightarrow> (s1, None))"
    using ch by (simp add: deliver_def t)
  have q: "queued (channel (feedObject newArticle)) (prepared newArticle s) =
           queued (channel (feedObject newArticle)) s"
    by (simp add: queued_def prepared_def log_def split: option.splits)
  have b: "?thesis" if none: "restProducer p = None"
    using a none adm sendNewArticle_queue [of w am p newArticle "prepared newArticle s"] q
    by (simp add: Let_def)
  have c: "?thesis"
    if some: "restProducer p = Some producer" and nm: "\<And>md. getMedium am \<noteq> Inr (Some md)"
    for producer
  proof -
    from sendNewArticle_no_medium [OF adm some nm, of newArticle "prepared newArticle s"]
    have "snd ?R \<noteq> None \<and> dispatches (fst ?R) = dispatches s"
      by (simp add: dispatches_def prepared_def log_def)
    with a some nm show ?thesis by (auto simp: Let_def split: sum.splits option.splits)
  qed
  have d: "?thesis"
    if some: "restProducer p = Some producer" and md: "getMedium am = Inr (Some md)"
    for producer md
  proof -
    let ?reqs = "map (api_request newArticle md) (apiPayloads_of newArticle am md)"
    let ?explicit =
      "map (\<lambda>payload.
              \<lparr>req_url = ''https://discord.com/api''
                 @ (case md of
                      Webhook i t \<Rightarrow> ''/webhooks/'' @ i @ ''/'' @ t
                    | TextChannel i \<Rightarrow> ''/channels/'' @ i @ ''/messages''),
               req_method = ''POST'',
               req_body = payload,
               meta_articleID = article_id (article newArticle),
               meta_feedURL = url (feedObject newArticle),
               meta_channel = channel (feedObject newArticle)\<rparr>)
           (createAPIPayloads am
              (case md of
                 Webhook i t \<Rightarrow> webhook (feedObject newArticle)
               | TextChannel i \<Rightarrow> None))"
    have e: "?reqs = ?explicit" by (rule api_requests_explicit)
    note direct = sendNewArticle_direct [OF adm some md, of newArticle "prepared newArticle s"]
    have 1: "requests (fst ?R) = requests s @ ?reqs"
      using direct(1) by simp
    have 2: "queues (fst ?R) = queues s" "queue_store (fst ?R) = queue_store s"
      "next_queue (fst ?R) = next_queue s"
      using direct(3-5) by (simp_all add: prepared_def log_def)
    have 3: "case snd ?R of
               None \<Rightarrow> \<forall>rq\<in>set ?reqs. snd (enqueue producer rq) = None
             | Some err \<Rightarrow>
                 \<exists>rq\<in>set ?reqs.
                   snd (enqueue producer rq) = Some err
                   \<and> (\<forall>rq'\<in>set ?reqs.
                         snd (enqueue producer rq') \<noteq> None \<longrightarrow>
                         fst (enqueue producer rq) \<le> fst (enqueue producer rq'))"
    proof (cases "snd ?R")
      case None
      with direct(2) have "Promise_all (map (enqueue producer) ?reqs) = None" by simp
      from Promise_all_map_None [OF this] None show ?thesis by simp
    next
      case (Some err)
      with direct(2) have "Promise_all (map (enqueue producer) ?reqs) = Some err" by simp
      from Promise_all_map_Some [OF this] Some show ?thesis by simp
    qed
    have inner: "requests (fst ?R) = requests s @ ?explicit
        \<and> queues (fst ?R) = queues s
        \<and> queue_store (fst ?R) = queue_store s
        \<and> next_queue (fst ?R) = next_queue s
        \<and> (case snd ?R of
             None \<Rightarrow> \<forall>rq\<in>set ?explicit. snd (enqueue producer rq) = None
           | Some err \<Rightarrow>
               \<exists>rq\<in>set ?explicit.
                 snd (enqueue producer rq) = Some err
                 \<and> (\<forall>rq'\<in>set ?explicit.
                       snd (enqueue producer rq') \<noteq> None \<longrightarrow>
                       fst (enqueue producer rq) \<le> fst (enqueue producer rq')))"
      using 1 2 3 unfolding e by (intro conjI)
    show ?thesis
      unfolding Let_def using a inner by (simp only: some md option.case sum.case)
  qed
  show ?thesis
  proof (cases "restProducer p")
    case None
    then show ?thesis by (rule b)
  next
    case (Some producer)
    show ?thesis
    proof (cases "\<exists>md. getMedium am = Inr (Some md)")
      case True
      then obtain md where "getMedium am = Inr (Some md)" by blast
      with Some show ?thesis by (rule d)
    next
      case False
      then have "\<And>md. getMedium am \<noteq> Inr (Some md)" by blast
      with Some show ?thesis by (rule c)
    qed
  qed
qed

theorem deliver_dispatch_modes_witness:
  "requests (fst (sendNewArticle example_world direct_pipeline example_article example_message
       (prepared example_article initial_state)))
     = [\<lparr>req_url = ''https://discord.com/api/channels/100/messages'', req_method = ''POST'',
         req_body = ''{}'', meta_articleID = ''a1'', meta_feedURL = ''https://example.com/rss'',
         meta_channel = ''100''\<rparr>,
        \<lparr>req_url = ''https://discord.com/api/channels/100/messages'', req_method = ''POST'',
         req_body = ''[]'', meta_articleID = ''a1'', meta_feedURL = ''https://example.com/rss'',
         meta_channel = ''100''\<rparr>]
   \<and> snd (sendNewArticle example_world direct_pipeline example_article example_message
       (prepared example_article initial_state)) = None
   \<and> map req_body (requests (fst (sendNewArticle example_world racing_pipeline example_article
       example_message (prepared example_article initial_state)))) = [''{}'', ''[]'']
   \<and> snd (sendNewArticle example_world racing_pipeline example_article example_message
       (prepared example_article initial_state)) = Some service_unavailable
   \<and> requests (fst (sendNewArticle example_world queue_pipeline example_article example_message
       (prepared example_article initial_state))) = []
   \<and> map fst (queued ''100'' (fst (sendNewArticle example_world queue_pipeline example_article
       example_message (prepared example_article initial_state)))) = [example_article]"
  using deliver_dispatch_modes
    [of example_world example_article example_channel False example_message direct_pipeline
      initial_state]
    deliver_dispatch_modes
    [of example_world example_article example_channel False example_message racing_pipeline
      initial_state]
    deliver_dispatch_modes
    [of example_world example_article example_channel False example_message queue_pipeline
      initial_state]
  by (simp add: example_article_def example_channel_def example_message_def example_world_def
      DeliveryPipeline_def initial_state_def getChannel_def
      queue_pipeline_def direct_pipeline_def example_producer_def racing_pipeline_def
      bad_request_def service_unavailable_def queued_def
      sendNewArticle_def sendToService_def api_request_def apiRoute_def apiPayloads_of_def
      JSON_stringify_def Promise_all_def getQueueForChannel_def ArticleQueue_enqueue_def
      prepared_def log_def Let_def)

text \<open>
  The claim as the specification states it (with a producer configured, every rate-admitted
  article is dispatched with one request per payload) fails: the article is admitted, a
  producer is configured and the message has two payloads to offer, but the medium is gone
  and no request is made.
\<close>

theorem deliver_dispatch_without_medium:
  "assertWithinLimits vanished_world (example_message\<lparr>getMedium := Inr None\<rparr>) = None
   \<and> restProducer direct_pipeline = Some example_producer
   \<and> createAPIPayloads (example_message\<lparr>getMedium := Inr None\<rparr>) None = [''{}'', ''[]'']
   \<and> requests (fst (deliver vanished_world direct_pipeline example_article False initial_state)) = []
   \<and> queues (fst (deliver vanished_world direct_pipeline example_article False initial_state))
       = Map.empty"
  by (simp add: example_article_def example_channel_def example_message_def example_world_def
      DeliveryPipeline_def initial_state_def getChannel_def delivery_data_def
      vanished_world_def direct_pipeline_def new_Error_def
      deliver_def deliver_try_def createArticleMessage_def handleArticleBlocked_def
      sendNewArticle_def sendToService_def handleArticleFailure_def recordFailure_def
      recordFilterBlock_def log_def Let_def)

subsection \<open>Recording is fire-and-forget\<close>

lemma recordFailure_disabled:
  "\<not> isMongoDatabase w \<Longrightarrow> recordFailure w na m s = (s, None)"
  by (simp add: recordFailure_def)

lemma recordFilterBlock_disabled:
  "\<not> isMongoDatabase w \<Longrightarrow> recordFilterBlock w na s = (s, None)"
  by (simp add: recordFilterBlock_def)

lemma recordFailure_write_fails:
  "isMongoDatabase w \<Longrightarrow> save w (delivery_data na m) = Some e \<Longrightarrow>
     recordFailure w na m s =
       (s\<lparr>logs := logs s @
           [\<lparr>severity = Debug, logged = DataObject (delivery_data na m),
             text_of = ''Recording delivery record failure''\<rparr>,
            \<lparr>severity = Err, logged = ErrorObject e,
             text_of = ''Failed to record article '' @ article_id (article na)
               @ '' delivery failure in channel '' @ channel (feedObject na)
               @ '' (error: '' @ m @ '')''\<rparr>]\<rparr>, None)"
  by (simp add: recordFailure_def Let_def log_def)

lemma recordFilterBlock_write_fails:
  "isMongoDatabase w \<Longrightarrow> save w (delivery_data na ''Blocked by filters'') = Some e \<Longrightarrow>
     recordFilterBlock w na s =
       (s\<lparr>logs := logs s @
           [\<lparr>severity = Debug, logged = DataObject (delivery_data na ''Blocked by filters''),
             text_of = ''Recording delivery record filter block''\<rparr>,
            \<lparr>severity = Err, logged = ErrorObject e,
             text_of = ''Failed to record article '' @ article_id (article na)
               @ '' delivery blocked by filters in channel '' @ channel (feedObject na)\<rparr>]\<rparr>, None)"
  by (simp add: recordFilterBlock_def Let_def log_def)

lemma sendNewArticle_persistence:
  "sendNewArticle (w\<lparr>isMongoDatabase := b, save := f\<rparr>) p na am s = sendNewArticle w p na am s"
  by (simp add: sendNewArticle_def)

lemma handleArticleBlocked_settles: "snd (handleArticleBlocked w p na s) = None"
  by (simp add: handleArticleBlocked_def recordFilterBlock_settles Let_def)

lemma handleArticleBlocked_frame:
  "dispatches (fst (handleArticleBlocked w p na s)) = dispatches s"
  "sent (fst (handleArticleBlocked w p na s)) = sent s"
  "created (fst (handleArticleBlocked w p na s)) = created s"
  "limiter_calls (fst (handleArticleBlocked w p na s)) = limiter_calls s"
  by (simp_all add: handleArticleBlocked_def recordFilterBlock_dispatches recordFilterBlock_sent
      recordFilterBlock_counts Let_def)

lemma deliver_try_persistence_settles:
  "snd (deliver_try (w\<lparr>isMongoDatabase := b, save := f\<rparr>) p na debug s) =
     snd (deliver_try w p na debug s)"
  by (simp add: deliver_try_def createArticleMessage_def sendNewArticle_persistence
      handleArticleBlocked_settles split: sum.splits)

lemma deliver_try_persistence_rejected:
  "snd (deliver_try w p na debug s) \<noteq> None \<Longrightarrow>
     fst (deliver_try (w\<lparr>isMongoDatabase := b, save := f\<rparr>) p na debug s) =
       fst (deliver_try w p na debug s)"
  by (auto simp: deliver_try_def createArticleMessage_def sendNewArticle_persistence
      handleArticleBlocked_settles split: sum.splits if_splits)

lemma deliver_try_persistence_frame:
  "dispatches (fst (deliver_try (w\<lparr>isMongoDatabase := b, save := f\<rparr>) p na debug s)) =
     dispatches (fst (deliver_try w p na debug s))"
  "sent (fst (deliver_try (w\<lparr>isMongoDatabase := b, save := f\<rparr>) p na debug s)) =
     sent (fst (deliver_try w p na debug s))"
  "created (fst (deliver_try (w\<lparr>isMongoDatabase := b, save := f\<rparr>) p na debug s)) =
     created (fst (deliver_try w p na debug s))"
  "limiter_calls (fst (deliver_try (w\<lparr>isMongoDatabase := b, save := f\<rparr>) p na debug s)) =
     limiter_calls (fst (deliver_try w p na debug s))"
  by (simp_all add: deliver_try_def createArticleMessage_def sendNewArticle_persistence
      handleArticleBlocked_frame split: sum.splits)

lemma deliver_persistence:
  "snd (deliver (w\<lparr>isMongoDatabase := b, save := f\<rparr>) p na debug s) = snd (deliver w p na debug s)
   \<and> dispatches (fst (deliver (w\<lparr>isMongoDatabase := b, save := f\<rparr>) p na debug s)) =
       dispatches (fst (deliver w p na debug s))
   \<and> sent (fst (deliver (w\<lparr>isMongoDatabase := b, save := f\<rparr>) p na debug s)) =
       sent (fst (deliver w p na debug s))
   \<and> created (fst (deliver (w\<lparr>isMongoDatabase := b, save := f\<rparr>) p na debug s)) =
       created (fst (deliver w p na debug s))
   \<and> limiter_calls (fst (deliver (w\<lparr>isMongoDatabase := b, save := f\<rparr>) p na debug s)) =
       limiter_calls (fst (deliver w p na debug s))"
proof (cases "getChannel (cache_on_entry w) na")
  case None
  then show ?thesis by (simp add: deliver_def)
next
  case (Some ch)
  let ?w = "w\<lparr>isMongoDatabase := b, save := f\<rparr>"
  obtain s1 r where t: "deliver_try w p na debug s = (s1, r)"
    by (cases "deliver_try w p na debug s")
  obtain s1' r' where t': "deliver_try ?w p na debug s = (s1', r')"
    by (cases "deliver_try ?w p na debug s")
  from deliver_try_persistence_settles [where w=w and b=b and f=f and p=p and na=na and debug=debug and s=s] t t' have r: "r' = r" by simp
  show ?thesis
  proof (cases r)
    case None
    with Some t t' r have "deliver w p na debug s = (s1, None)" "deliver ?w p na debug s = (s1', None)"
      by (simp_all add: deliver_def)
    moreover from deliver_try_persistence_frame [where w=w and b=b and f=f and p=p and na=na and debug=debug and s=s] t t'
    have "dispatches s1' = dispatches s1" "sent s1' = sent s1" "created s1' = created s1"
      "limiter_calls s1' = limiter_calls s1" by simp_all
    ultimately show ?thesis by simp
  next
    case (Some err)
    with deliver_try_persistence_rejected [where w=w and b=b and f=f and p=p and na=na and debug=debug and s=s] t t' have s1: "s1' = s1" by simp
    from \<open>getChannel (cache_on_entry w) na = Some ch\<close> t t' r s1 Some
    have "deliver w p na debug s = handleArticleFailure w na err s1"
      "deliver ?w p na debug s = handleArticleFailure ?w na err s1"
      by (simp_all add: deliver_def)
    then show ?thesis
      by (simp add: handleArticleFailure_settles handleArticleFailure_sent
          handleArticleFailure_dispatches handleArticleFailure_counts split: option.splits)
  qed
qed

text \<open>
  Claim C8. \<open>recordFailure\<close> and \<open>recordFilterBlock\<close> never reject. With the record
  store disabled they return the state they were given. When the write throws, the error
  is caught inside: the store is unchanged, the error is logged at error severity, and the
  call resolves. And the record store does not steer the delivery: whether it is enabled
  and however its writes settle, \<open>deliver\<close> settles the same way, dispatches the same
  requests into the same queues, sends the same channel messages and makes the same calls
  to \<open>ArticleMessage.create\<close> and to the rate limiter.
\<close>

theorem recording_fire_and_forget:
  "snd (recordFailure w na m s) = None
   \<and> snd (recordFilterBlock w na s) = None
   \<and> (\<not> isMongoDatabase w \<longrightarrow>
        recordFailure w na m s = (s, None) \<and> recordFilterBlock w na s = (s, None))
   \<and> (isMongoDatabase w \<and> save w (delivery_data na m) = Some e \<longrightarrow>
        recordFailure w na m s =
          (s\<lparr>logs := logs s @
              [\<lparr>severity = Debug, logged = DataObject (delivery_data na m),
                text_of = ''Recording delivery record failure''\<rparr>,
               \<lparr>severity = Err, logged = ErrorObject e,
                text_of = ''Failed to record article '' @ article_id (article na)
                  @ '' delivery failure in channel '' @ channel (feedObject na)
                  @ '' (error: '' @ m @ '')''\<rparr>]\<rparr>, None))
   \<and> (isMongoDatabase w \<and> save w (delivery_data na ''Blocked by filters'') = Some e' \<longrightarrow>
        recordFilterBlock w na s =
          (s\<lparr>logs := logs s @
              [\<lparr>severity = Debug, logged = DataObject (delivery_data na ''Blocked by filters''),
                text_of = ''Recording delivery record filter block''\<rparr>,
               \<lparr>severity = Err, logged = ErrorObject e',
                text_of = ''Failed to record article '' @ article_id (article na)
                  @ '' delivery blocked by filters in channel '' @ channel (feedObject na)\<rparr>]\<rparr>,
           None))
   \<and> snd (deliver (w\<lparr>isMongoDatabase := b, save := f\<rparr>) p na debug s) = snd (deliver w p na debug s)
   \<and> dispatches (fst (deliver (w\<lparr>isMongoDatabase := b, save := f\<rparr>) p na debug s)) =
       dispatches (fst (deliver w p na debug s))
   \<and> sent (fst (deliver (w\<lparr>isMongoDatabase := b, save := f\<rparr>) p na debug s)) =
       sent (fst (deliver w p na debug s))
   \<and> created (fst (deliver (w\<lparr>isMongoDatabase := b, save := f\<rparr>) p na debug s)) =
       created (fst (deliver w p na debug s))
   \<and> limiter_calls (fst (deliver (w\<lparr>isMongoDatabase := b, save := f\<rparr>) p na debug s)) =
       limiter_calls (fst (deliver w p na debug s))"
  using recordFailure_settles [of w na m s] recordFilterBlock_settles [of w na s]
    recordFailure_disabled [of w na m s] recordFilterBlock_disabled [of w na s]
    recordFailure_write_fails [of w na m e s] recordFilterBlock_write_fails [of w na e' s]
    deliver_persistence [where w=w and b=b and f=f and p=p and na=na and debug=debug and s=s]
  by blast

theorem recording_fire_and_forget_witness:
  "recordFailure (example_world\<lparr>isMongoDatabase := False\<rparr>) example_article ''Invalid Form Body''
     initial_state = (initial_state, None)
   \<and> recordFilterBlock (example_world\<lparr>isMongoDatabase := False\<rparr>) example_article initial_state
       = (initial_state, None)
   \<and> recordFailure (example_world\<lparr>save := (\<lambda>data. Some database_error)\<rparr>) example_article
       ''Invalid Form Body'' initial_state
       = (initial_state\<lparr>logs :=
            [\<lparr>severity = Debug,
              logged = DataObject (delivery_data example_article ''Invalid Form Body''),
              text_of = ''Recording delivery record failure''\<rparr>,
             \<lparr>severity = Err, logged = ErrorObject database_error,
              text_of = ''Failed to record article a1 delivery failure in channel 100 (error: Invalid Form Body)''\<rparr>]\<rparr>,
          None)
   \<and> snd (deliver (example_world\<lparr>isMongoDatabase := False, save := (\<lambda>data. Some database_error)\<rparr>)
         (rejecting_pipeline bad_request) example_article False initial_state)
       = snd (deliver example_world (rejecting_pipeline bad_request) example_article False initial_state)
   \<and> sent (fst (deliver (example_world\<lparr>isMongoDatabase := False, save := (\<lambda>data. Some database_error)\<rparr>)
         (rejecting_pipeline bad_request) example_article False initial_state))
       = sent (fst (deliver example_world (rejecting_pipeline bad_request) example_article False
           initial_state))"
  using recording_fire_and_forget
    [where w = "example_world\<lparr>isMongoDatabase := False\<rparr>" and na = example_article
      and m = "''Invalid Form Body''" and s = initial_state and e = database_error
      and e' = database_error and b = False and f = "\<lambda>data. None" and p = queue_pipeline
      and debug = False]
    recording_fire_and_forget
    [where w = "example_world\<lparr>save := (\<lambda>data. Some database_error)\<rparr>"
      and na = example_article and m = "''Invalid Form Body''" and s = initial_state
      and e = database_error and e' = database_error and b = True and f = "\<lambda>data. None"
      and p = queue_pipeline and debug = False]
    recording_fire_and_forget
    [where w = example_world and na = example_article and m = "''Invalid Form Body''"
      and s = initial_state and e = database_error and e' = database_error and b = False
      and f = "\<lambda>data. Some database_error" and p = "rejecting_pipeline bad_request"
      and debug = False]
  by (simp add: example_article_def example_channel_def example_message_def example_world_def
      DeliveryPipeline_def initial_state_def getChannel_def delivery_data_def
      database_error_def bad_request_def rejecting_pipeline_def Promise_all_def queue_pipeline_def)


subsection \<open>The registry of queues\<close>

lemma getQueueForChannel_known:
  "queues s c = Some q \<Longrightarrow> getQueueForChannel c s = (q, s)"
  by (simp add: getQueueForChannel_def)

lemma getQueueForChannel_registers:
  "queues (snd (getQueueForChannel c s)) c = Some (fst (getQueueForChannel c s))"
  by (simp add: getQueueForChannel_def Let_def split: option.splits)

lemma getQueueForChannel_keeps:
  "queues s c = Some q \<Longrightarrow> queues (snd (getQueueForChannel d s)) c = Some q"
  by (auto simp: getQueueForChannel_def Let_def split: option.splits)

lemma getQueuesForChannels_keeps:
  "queues s c = Some q \<Longrightarrow> queues (getQueuesForChannels ds s) c = Some q"
  by (induction ds arbitrary: s) (auto simp: getQueueForChannel_keeps)

lemma getQueueForChannel_dom:
  "dom (queues (snd (getQueueForChannel c s))) = insert c (dom (queues s))"
  by (auto simp: getQueueForChannel_def Let_def split: option.splits)

lemma getQueuesForChannels_dom:
  "dom (queues (getQueuesForChannels cs s)) = dom (queues s) \<union> set cs"
  by (induction cs arbitrary: s) (auto simp: getQueueForChannel_dom)

lemma getQueueForChannel_ok:
  assumes "registry_ok s"
  shows "registry_ok (snd (getQueueForChannel c s))"
proof (cases "queues s c")
  case (Some q)
  with assms show ?thesis by (simp add: getQueueForChannel_known)
next
  case None
  let ?s' = "snd (getQueueForChannel c s)"
  have q: "queues ?s' = (queues s)(c \<mapsto> next_queue s)" and n: "next_queue ?s' = Suc (next_queue s)"
    using None by (simp_all add: getQueueForChannel_def Let_def)
  from assms have fin: "finite (dom (queues s))" and card: "card (dom (queues s)) = next_queue s"
    and lt: "\<And>d q. queues s d = Some q \<Longrightarrow> q < next_queue s"
    and inj: "inj_on (queues s) (dom (queues s))"
    by (auto simp: registry_ok_def)
  from None have notin: "c \<notin> dom (queues s)" by auto
  have 1: "finite (dom (queues ?s'))" using fin by (simp add: q)
  have 2: "card (dom (queues ?s')) = next_queue ?s'"
    using fin card notin by (simp add: q n)
  have 3: "\<forall>d r. queues ?s' d = Some r \<longrightarrow> r < next_queue ?s'"
    using lt by (auto simp: q n less_Suc_eq)
  have 4: "inj_on (queues ?s') (dom (queues ?s'))"
  proof (rule inj_onI)
    fix x y
    assume x: "x \<in> dom (queues ?s')" and y: "y \<in> dom (queues ?s')"
      and eq: "queues ?s' x = queues ?s' y"
    show "x = y"
    proof (cases "x = c")
      case True
      show ?thesis
      proof (rule ccontr)
        assume "x \<noteq> y"
        with True eq have "queues s y = Some (next_queue s)" by (simp add: q)
        with lt [of y "next_queue s"] show False by simp
      qed
    next
      case False
      show ?thesis
      proof (cases "y = c")
        case True
        with False eq have "queues s x = Some (next_queue s)" by (simp add: q)
        with lt [of x "next_queue s"] show ?thesis by simp
      next
        case yc: False
        with False x y eq have "x \<in> dom (queues s)" "y \<in> dom (queues s)" "queues s x = queues s y"
          by (auto simp: q)
        with inj show ?thesis by (auto dest: inj_onD)
      qed
    qed
  qed
  from 1 2 3 4 show ?thesis by (simp add: registry_ok_def)
qed

lemma getQueuesForChannels_ok:
  "registry_ok s \<Longrightarrow> registry_ok (getQueuesForChannels cs s)"
  by (induction cs arbitrary: s) (auto simp: getQueueForChannel_ok)

lemma initial_registry_ok: "registry_ok initial_state"
  by (simp add: registry_ok_def initial_state_def)

text \<open>
  Claim C9. A second call of \<open>getQueueForChannel\<close> for a channel id, after any calls
  for other ids in between, returns the queue instance of the first call and leaves the
  state as it is: it creates nothing. A call creates a queue only when the id is not yet
  registered. Starting from the empty registry of the constructor, after any run of
  calls the registered ids are the ids asked for, the number of queues created is the
  number of distinct ids, and no queue is registered under two ids.
\<close>

theorem getQueueForChannel_idempotent:
  "fst (getQueueForChannel c (getQueuesForChannels ds (snd (getQueueForChannel c s))))
     = fst (getQueueForChannel c s)
   \<and> snd (getQueueForChannel c (getQueuesForChannels ds (snd (getQueueForChannel c s))))
     = getQueuesForChannels ds (snd (getQueueForChannel c s))
   \<and> next_queue (snd (getQueueForChannel c s))
     = (if queues s c = None then Suc (next_queue s) else next_queue s)
   \<and> dom (queues (getQueuesForChannels cs initial_state)) = set cs
   \<and> next_queue (getQueuesForChannels cs initial_state) = card (set cs)
   \<and> inj_on (queues (getQueuesForChannels cs initial_state)) (set cs)"
proof -
  let ?s1 = "snd (getQueueForChannel c s)"
  let ?s2 = "getQueuesForChannels ds ?s1"
  have "queues ?s1 c = Some (fst (getQueueForChannel c s))"
    by (rule getQueueForChannel_registers)
  then have "queues ?s2 c = Some (fst (getQueueForChannel c s))"
    by (rule getQueuesForChannels_keeps)
  then have again: "getQueueForChannel c ?s2 = (fst (getQueueForChannel c s), ?s2)"
    by (rule getQueueForChannel_known)
  have created: "next_queue ?s1 = (if queues s c = None then Suc (next_queue s) else next_queue s)"
    by (simp add: getQueueForChannel_def Let_def split: option.splits)
  let ?r = "getQueuesForChannels cs initial_state"
  have ok: "registry_ok ?r"
    using initial_registry_ok by (rule getQueuesForChannels_ok)
  have d: "dom (queues ?r) = set cs"
    by (simp add: getQueuesForChannels_dom initial_state_def)
  from ok d have n: "next_queue ?r = card (set cs)" and i: "inj_on (queues ?r) (set cs)"
    by (simp_all add: registry_ok_def)
  from again created d n i show ?thesis by simp
qed

theorem getQueueForChannel_idempotent_witness:
  "fst (getQueueForChannel ''100'' (getQueuesForChannels [''200'', ''100'']
          (snd (getQueueForChannel ''100'' initial_state)))) = 0
   \<and> next_queue (getQueuesForChannels [''100'', ''200'', ''100'', ''200''] initial_state) = 2"
  using getQueueForChannel_idempotent
    [of "''100''" "[''200'', ''100'']" initial_state "[''100'', ''200'', ''100'', ''200'']"]
  by (simp add: getQueueForChannel_def initial_state_def)


subsection \<open>Rate limits are told by the message\<close>

lemma recordFailure_logs:
  "\<exists>extra. logs (fst (recordFailure w na m s)) = logs s @ extra
       \<and> (\<forall>e\<in>set extra. severity e \<noteq> Warn)"
  by (simp add: recordFailure_def Let_def split: option.splits)

text \<open>
  For a caught error that has a message text, \<open>handleArticleFailure\<close> takes it for a
  rate limit exactly when "limited" occurs in the message, whatever its code. Such an error
  is logged by the handler at debug severity ("Ignoring rate-limited article"), nothing
  logged during the call is a warning, and nothing is sent to the channel. An error whose
  message lacks "limited" is logged at warning severity. (The logs of \<open>recordFailure\<close>,
  which runs first, come before the handler's own line.)
\<close>

lemma handleArticleFailure_classifies:
  assumes m: "message err = Some m"
  shows "(String_includes m ''limited'' \<longleftrightarrow> (\<exists>p q. m = p @ ''limited'' @ q))
       \<and> (String_includes m ''limited'' \<longrightarrow>
            handleArticleFailure w na err s =
              (log Debug (ErrorObject err) ''Ignoring rate-limited article''
                 (fst (recordFailure w na m s)), None)
            \<and> (\<forall>e\<in>set (drop (length (logs s)) (logs (fst (handleArticleFailure w na err s)))).
                  severity e \<noteq> Warn)
            \<and> sent (fst (handleArticleFailure w na err s)) = sent s)
       \<and> (\<not> String_includes m ''limited'' \<longrightarrow>
            logs (fst (handleArticleFailure w na err s)) =
              logs (fst (recordFailure w na (js_or_text (Some m) ''N/A'') s))
              @ [\<lparr>severity = Warn, logged = ErrorObject err,
                  text_of = ''Failed to deliver article '' @ article_id (article na)
                    @ '' ('' @ template (link (article na)) @ '') of feed ''
                    @ feed_id (feedObject na)\<rparr>])"
proof -
  have a: "String_includes m ''limited'' \<longleftrightarrow> (\<exists>p q. m = p @ ''limited'' @ q)"
    by (rule String_includes_iff)
  have b: "handleArticleFailure w na err s =
              (log Debug (ErrorObject err) ''Ignoring rate-limited article''
                 (fst (recordFailure w na m s)), None)
            \<and> (\<forall>e\<in>set (drop (length (logs s)) (logs (fst (handleArticleFailure w na err s)))).
                  severity e \<noteq> Warn)
            \<and> sent (fst (handleArticleFailure w na err s)) = sent s"
    if inc: "String_includes m ''limited''"
  proof -
    from inc have ne: "m \<noteq> []" by (rule includes_nonempty)
    have h: "handleArticleFailure w na err s =
          (log Debug (ErrorObject err) ''Ignoring rate-limited article''
             (fst (recordFailure w na m s)), None)"
      using m inc ne by (simp add: handleArticleFailure_split Let_def)
    obtain extra where ex: "logs (fst (recordFailure w na m s)) = logs s @ extra"
      and nw: "\<forall>e\<in>set extra. severity e \<noteq> Warn"
      using recordFailure_logs [of w na m s] by blast
    have "\<forall>e\<in>set (drop (length (logs s)) (logs (fst (handleArticleFailure w na err s)))).
            severity e \<noteq> Warn"
      using nw by (auto simp: h ex)
    moreover have "sent (fst (handleArticleFailure w na err s)) = sent s"
      by (simp add: h recordFailure_sent)
    ultimately show ?thesis using h by blast
  qed
  have c: "logs (fst (handleArticleFailure w na err s)) =
              logs (fst (recordFailure w na (js_or_text (Some m) ''N/A'') s))
              @ [\<lparr>severity = Warn, logged = ErrorObject err,
                  text_of = ''Failed to deliver article '' @ article_id (article na)
                    @ '' ('' @ template (link (article na)) @ '') of feed ''
                    @ feed_id (feedObject na)\<rparr>]"
    if ninc: "\<not> String_includes m ''limited''"
    using m ninc by (simp add: handleArticleFailure_split Let_def split: option.splits)
  from a b c show ?thesis by blast
qed


text \<open>
  Claim C10 fails on the code for a caught value without a message. Line 101 copes with
  it (\<open>err.message || 'N/A'\<close>: the failure is recorded with the comment "N/A"), but
  line 102 calls \<open>includes\<close> on the missing message: the handler throws, no warning is
  logged for an error whose message does not contain "limited", and \<open>deliver\<close> rejects.
\<close>

theorem handleArticleFailure_throws_without_message:
  "records (fst (handleArticleFailure example_world example_article messageless_error
       initial_state)) = [delivery_data example_article ''N/A'']
   \<and> map severity (logs (fst (handleArticleFailure example_world example_article
       messageless_error initial_state))) = [Debug]
   \<and> snd (handleArticleFailure example_world example_article messageless_error initial_state)
       = Some (TypeError_property ''includes'')
   \<and> snd (deliver (example_world\<lparr>create := (\<lambda>feed art debug. Inl messageless_error)\<rparr>)
         queue_pipeline example_article False initial_state)
       = Some (TypeError_property ''includes'')"
  by (simp add: example_article_def example_channel_def example_world_def
      DeliveryPipeline_def initial_state_def getChannel_def delivery_data_def
      queue_pipeline_def messageless_error_def
      deliver_def deliver_try_def createArticleMessage_def
      handleArticleFailure_def recordFailure_def log_def Let_def)

end
